theory Spec2Isabelle
  imports Complex_Main
begin

section \<open>Python values\<close>

text \<open>
  The services pass JSON-like values around: person data, provider results and Notion
  pages are dictionaries with string keys whose values are \<open>None\<close>, booleans, integers,
  strings, lists or dictionaries. A dictionary is an association list (its first binding
  of a key is the one \<open>get\<close> sees); JSON numbers are integers here.
\<close>

datatype pyval =
    PNone
  | PBool bool
  | PInt int
  | PStr string
  | PList "pyval list"
  | PDict "(string \<times> pyval) list"

type_synonym pydict = "(string \<times> pyval) list"

text \<open>Python truthiness, as used by every \<open>if x:\<close> and \<open>if not x:\<close> of the source.\<close>

fun truthy :: "pyval \<Rightarrow> bool" where
  "truthy PNone = False"
| "truthy (PBool b) = b"
| "truthy (PInt i) = (i \<noteq> 0)"
| "truthy (PStr s) = (s \<noteq> [])"
| "truthy (PList xs) = (xs \<noteq> [])"
| "truthy (PDict d) = (d \<noteq> [])"

text \<open>\<open>d.get(k)\<close> on a dictionary: the value, or \<open>None\<close> when the key is absent.\<close>

definition dict_get :: "pydict \<Rightarrow> string \<Rightarrow> pyval" where
  "dict_get d k = (case map_of d k of None \<Rightarrow> PNone | Some v \<Rightarrow> v)"

text \<open>
  Truthiness of an \<open>Optional[Dict]\<close> field: \<open>None\<close> and the empty dictionary are
  both falsy.
\<close>

fun truthy_data :: "pydict option \<Rightarrow> bool" where
  "truthy_data None = False"
| "truthy_data (Some d) = (d \<noteq> [])"

subsection \<open>Exceptions\<close>

text \<open>
  Exceptions other than \<open>requests.exceptions.RequestException\<close>, each with the text
  \<open>str(e)\<close> gives. \<open>KeyError\<close> carries the \<open>repr\<close> of the missing key.
\<close>

datatype exn =
    KeyError string
  | AttributeError string
  | TypeError string
  | IndexError string
  | OtherException string

fun str_exn :: "exn \<Rightarrow> string" where
  "str_exn (KeyError m) = m"
| "str_exn (AttributeError m) = m"
| "str_exn (TypeError m) = m"
| "str_exn (IndexError m) = m"
| "str_exn (OtherException m) = m"

text \<open>\<open>repr\<close> of a string without quotes or escapes: the string between single quotes.\<close>

definition quoted :: "string \<Rightarrow> string" where
  "quoted k = CHR 0x27 # k @ [CHR 0x27]"

fun type_name :: "pyval \<Rightarrow> string" where
  "type_name PNone = ''NoneType''"
| "type_name (PBool b) = ''bool''"
| "type_name (PInt i) = ''int''"
| "type_name (PStr s) = ''str''"
| "type_name (PList xs) = ''list''"
| "type_name (PDict d) = ''dict''"

definition no_attribute :: "pyval \<Rightarrow> string \<Rightarrow> exn" where
  "no_attribute v attr =
     AttributeError (quoted (type_name v) @ '' object has no attribute '' @ quoted attr)"

text \<open>\<open>d.get(k, default)\<close> on a dictionary.\<close>

definition dict_get_default :: "pydict \<Rightarrow> string \<Rightarrow> pyval \<Rightarrow> pyval" where
  "dict_get_default d k dflt = (case map_of d k of None \<Rightarrow> dflt | Some v \<Rightarrow> v)"

text \<open>\<open>d[k]\<close> on a dictionary: \<open>KeyError\<close> when the key is absent.\<close>

definition dict_item :: "pydict \<Rightarrow> string \<Rightarrow> exn + pyval" where
  "dict_item d k = (case map_of d k of None \<Rightarrow> Inl (KeyError (quoted k)) | Some v \<Rightarrow> Inr v)"

text \<open>\<open>d[k] = v\<close>: the binding is replaced in place, or appended when the key is new.\<close>

fun dict_set :: "pydict \<Rightarrow> string \<Rightarrow> pyval \<Rightarrow> pydict" where
  "dict_set [] k v = [(k, v)]"
| "dict_set ((k', v') # d) k v = (if k' = k then (k, v) # d else (k', v') # dict_set d k v)"

text \<open>
  The same operations on a value that need not be a dictionary: \<open>v.get(k, default)\<close>
  raises \<open>AttributeError\<close> on anything else; \<open>v[k]\<close> with a string key and \<open>v[0]\<close>
  raise as Python does.
\<close>

fun py_get :: "pyval \<Rightarrow> string \<Rightarrow> pyval \<Rightarrow> exn + pyval" where
  "py_get (PDict d) k dflt = Inr (dict_get_default d k dflt)"
| "py_get v k dflt = Inl (no_attribute v ''get'')"

fun py_item :: "pyval \<Rightarrow> string \<Rightarrow> exn + pyval" where
  "py_item (PDict d) k = dict_item d k"
| "py_item (PStr s) k = Inl (TypeError (''string indices must be integers, not '' @ quoted ''str''))"
| "py_item (PList xs) k = Inl (TypeError ''list indices must be integers or slices, not str'')"
| "py_item v k = Inl (TypeError (quoted (type_name v) @ '' object is not subscriptable''))"

fun py_item0 :: "pyval \<Rightarrow> exn + pyval" where
  "py_item0 (PList (x # xs)) = Inr x"
| "py_item0 (PList []) = Inl (IndexError ''list index out of range'')"
| "py_item0 (PStr (c # cs)) = Inr (PStr [c])"
| "py_item0 (PStr []) = Inl (IndexError ''string index out of range'')"
| "py_item0 (PDict d) = Inl (KeyError ''0'')"
| "py_item0 v = Inl (TypeError (quoted (type_name v) @ '' object is not subscriptable''))"

section \<open>The enrichment record (improved\_enrichment.py)\<close>

text \<open>
  The dataclass \<open>EnrichmentRecord\<close>. \<open>person_name\<close>, \<open>original_record_id\<close>
  and \<open>enrichment_status\<close> hold whatever the person data or a stored Notion page
  provides, so they are Python values; \<open>errors\<close> is \<open>Optional[List[str]]\<close>.
\<close>

record EnrichmentRecord =
  person_name :: pyval
  original_record_id :: pyval
  apollo_data :: "pydict option"
  linkedin_data :: "pydict option"
  enrichment_status :: pyval
  data_confidence :: string
  completeness_score :: int
  errors :: "string list option"

text \<open>
  The dataclass constructor: \<open>EnrichmentRecord(name, id)\<close> with every other field at its
  declared default.
\<close>

definition new_record :: "pyval \<Rightarrow> pyval \<Rightarrow> EnrichmentRecord" where
  "new_record name rid =
     \<lparr> person_name = name, original_record_id = rid,
       apollo_data = None, linkedin_data = None,
       enrichment_status = PStr ''Not Started'',
       data_confidence = ''Medium'',
       completeness_score = 0,
       errors = None \<rparr>"

section \<open>Completeness score\<close>

definition apollo_fields :: "string list" where
  "apollo_fields = [''email'', ''phone'', ''title'', ''company'', ''city'', ''linkedin_url'']"

definition linkedin_fields :: "string list" where
  "linkedin_fields =
     [''headline'', ''summary'', ''location'', ''experience'', ''education'', ''skills'']"

text \<open>
  The loop \<open>for field in fields: total_fields += 1; if data.get(field): filled_fields += 1\<close>,
  on the pair of counters \<open>(total_fields, filled_fields)\<close>.
\<close>

fun count_fields :: "pydict \<Rightarrow> string list \<Rightarrow> nat \<times> nat \<Rightarrow> nat \<times> nat" where
  "count_fields d [] acc = acc"
| "count_fields d (field # flds) (total_fields, filled_fields) =
     count_fields d flds
       (total_fields + 1,
        if truthy (dict_get d field) then filled_fields + 1 else filled_fields)"

text \<open>
  \<open>int((filled_fields / total_fields) * 100)\<close>. Python divides and multiplies in
  double precision and truncates; the model computes the same expression in exact
  rational arithmetic. For every pair the two checklists can produce (a total of 6 or 12
  and at most that many filled fields) the double-precision result truncates to the same
  integer.
\<close>

definition percent_int :: "nat \<Rightarrow> nat \<Rightarrow> int" where
  "percent_int filled_fields total_fields =
     \<lfloor>(rat_of_nat filled_fields / rat_of_nat total_fields) * 100\<rfloor>"

definition count_provider :: "pydict option \<Rightarrow> string list \<Rightarrow> nat \<times> nat \<Rightarrow> nat \<times> nat" where
  "count_provider data flds acc =
     (case data of
        None \<Rightarrow> acc
      | Some d \<Rightarrow> if d \<noteq> [] then count_fields d flds acc else acc)"

definition calculate_completeness :: "EnrichmentRecord \<Rightarrow> int" where
  "calculate_completeness record =
     (let counters = count_provider (apollo_data record) apollo_fields (0, 0);
          counters = count_provider (linkedin_data record) linkedin_fields counters;
          total_fields = fst counters;
          filled_fields = snd counters
      in if total_fields > 0 then percent_int filled_fields total_fields else 0)"

subsection \<open>The checklist, as the specification words it\<close>

text \<open>
  The checklist of a record is the union of the fixed per-provider checklists of the
  providers that are counted, a provider being counted when its data is present and
  non-empty. An entry is filled when the provider's data holds a truthy value for it.
\<close>

datatype provider = Apollo | LinkedIn

definition provider_data :: "EnrichmentRecord \<Rightarrow> provider \<Rightarrow> pydict option" where
  "provider_data record p = (case p of Apollo \<Rightarrow> apollo_data record | LinkedIn \<Rightarrow> linkedin_data record)"

definition provider_checklist :: "provider \<Rightarrow> string list" where
  "provider_checklist p = (case p of Apollo \<Rightarrow> apollo_fields | LinkedIn \<Rightarrow> linkedin_fields)"

definition checklist :: "EnrichmentRecord \<Rightarrow> (provider \<times> string) list" where
  "checklist record =
     concat (map (\<lambda>p. if truthy_data (provider_data record p)
                       then map (Pair p) (provider_checklist p) else [])
                 [Apollo, LinkedIn])"

definition entry_filled :: "EnrichmentRecord \<Rightarrow> provider \<times> string \<Rightarrow> bool" where
  "entry_filled record e =
     (case provider_data record (fst e) of
        None \<Rightarrow> False
      | Some d \<Rightarrow> truthy (dict_get d (snd e)))"

definition total_checklist_count :: "EnrichmentRecord \<Rightarrow> nat" where
  "total_checklist_count record = length (checklist record)"

definition filled_count :: "EnrichmentRecord \<Rightarrow> nat" where
  "filled_count record = length (filter (entry_filled record) (checklist record))"

section \<open>Confidence level\<close>

text \<open>\<open>if cond: confidence_score += points\<close>.\<close>

definition add_points :: "bool \<Rightarrow> int \<Rightarrow> int \<Rightarrow> int" where
  "add_points cond points confidence_score =
     (if cond then confidence_score + points else confidence_score)"

definition assess_data_confidence :: "EnrichmentRecord \<Rightarrow> string" where
  "assess_data_confidence record =
     (let confidence_score = 0;
          confidence_score =
            (case apollo_data record of
               None \<Rightarrow> confidence_score
             | Some a \<Rightarrow>
                 if a \<noteq> [] then
                   add_points (truthy (dict_get a ''company'')) 10
                     (add_points (truthy (dict_get a ''phone'')) 20
                       (add_points (truthy (dict_get a ''email'')) 30 confidence_score))
                 else confidence_score);
          confidence_score =
            (case linkedin_data record of
               None \<Rightarrow> confidence_score
             | Some l \<Rightarrow>
                 if l \<noteq> [] then
                   add_points (truthy (dict_get l ''education'')) 10
                     (add_points (truthy (dict_get l ''experience'')) 15
                       (add_points (truthy (dict_get l ''headline'')) 15 confidence_score))
                 else confidence_score)
      in if confidence_score \<ge> 70 then ''High''
         else if confidence_score \<ge> 40 then ''Medium''
         else ''Low'')"

subsection \<open>Signals and the order of the buckets\<close>

text \<open>
  The verification signals the assessment looks at, and when a record has one: the
  provider's data holds a truthy value under the signal's key.
\<close>

datatype signal =
    ApolloEmail | ApolloPhone | ApolloCompany
  | LinkedInHeadline | LinkedInExperience | LinkedInEducation

fun signal_entry :: "signal \<Rightarrow> provider \<times> string" where
  "signal_entry ApolloEmail = (Apollo, ''email'')"
| "signal_entry ApolloPhone = (Apollo, ''phone'')"
| "signal_entry ApolloCompany = (Apollo, ''company'')"
| "signal_entry LinkedInHeadline = (LinkedIn, ''headline'')"
| "signal_entry LinkedInExperience = (LinkedIn, ''experience'')"
| "signal_entry LinkedInEducation = (LinkedIn, ''education'')"

definition has_signal :: "EnrichmentRecord \<Rightarrow> signal \<Rightarrow> bool" where
  "has_signal record s = entry_filled record (signal_entry s)"

definition all_signals :: "signal list" where
  "all_signals =
     [ApolloEmail, ApolloPhone, ApolloCompany,
      LinkedInHeadline, LinkedInExperience, LinkedInEducation]"

text \<open>
  \<open>signals_included r1 r2\<close>: every signal of \<open>r1\<close> is a signal of \<open>r2\<close>. Two records
  that differ only in that the second has one more signal are a special case.
\<close>

definition signals_included :: "EnrichmentRecord \<Rightarrow> EnrichmentRecord \<Rightarrow> bool" where
  "signals_included r1 r2 = list_all (\<lambda>s. \<not> has_signal r1 s \<or> has_signal r2 s) all_signals"

text \<open>The order Low < Medium < High of the confidence buckets.\<close>

definition confidence_rank :: "string \<Rightarrow> nat" where
  "confidence_rank c = (if c = ''High'' then 2 else if c = ''Medium'' then 1 else 0)"

section \<open>The enhanced record and its confidence level (enhanced\_apify\_enrichment.py)\<close>

record NetworkConnection =
  c_name :: pyval
  c_title :: pyval
  c_company :: pyval
  c_industry :: pyval
  c_location :: pyval
  c_mutual_connections :: pyval
  c_profile_url :: pyval

record EnhancedEnrichmentRecord =
  e_person_name :: pyval
  e_original_record_id :: pyval
  e_apollo_data :: "pydict option"
  e_linkedin_data :: "pydict option"
  e_linkedin_connections :: "NetworkConnection list option"
  e_network_analysis :: "pydict option"
  e_external_data_sources :: "string list option"
  e_enrichment_status :: pyval
  e_data_confidence :: string
  e_completeness_score :: int
  e_errors :: "string list option"

text \<open>
  \<open>v > n\<close> and \<open>v >= n\<close> for an integer constant \<open>n\<close>: integers compare, booleans
  compare as 0 and 1, and every other value raises \<open>TypeError\<close>.
\<close>

fun py_gt :: "pyval \<Rightarrow> int \<Rightarrow> exn + bool" where
  "py_gt (PInt i) n = Inr (i > n)"
| "py_gt (PBool b) n = Inr ((if b then 1 else 0) > n)"
| "py_gt v n =
     Inl (TypeError (quoted ''>'' @ '' not supported between instances of '' @
                     quoted (type_name v) @ '' and '' @ quoted ''int''))"

fun py_ge :: "pyval \<Rightarrow> int \<Rightarrow> exn + bool" where
  "py_ge (PInt i) n = Inr (i \<ge> n)"
| "py_ge (PBool b) n = Inr ((if b then 1 else 0) \<ge> n)"
| "py_ge v n =
     Inl (TypeError (quoted ''>='' @ '' not supported between instances of '' @
                     quoted (type_name v) @ '' and '' @ quoted ''int''))"

text \<open>The block under \<open>if record.apollo_data:\<close>.\<close>

definition enhanced_apollo_points :: "pydict \<Rightarrow> int \<Rightarrow> exn + int" where
  "enhanced_apollo_points a confidence_score =
     (let confidence_score = add_points (truthy (dict_get a ''email_verified'')) 25 confidence_score;
          confidence_score = add_points (truthy (dict_get a ''phone_verified'')) 20 confidence_score;
          confidence_score = add_points (truthy (dict_get a ''intent_data'')) 10 confidence_score
      in case py_gt (dict_get_default a ''news_mentions'' (PInt 0)) 0 of
           Inl e \<Rightarrow> Inl e
         | Inr news \<Rightarrow> Inr (add_points news 5 confidence_score))"

text \<open>The block under \<open>if record.linkedin_data:\<close>.\<close>

definition enhanced_linkedin_points :: "pydict \<Rightarrow> int \<Rightarrow> exn + int" where
  "enhanced_linkedin_points l confidence_score =
     (case py_ge (dict_get_default l ''experience_count'' (PInt 0)) 2 of
        Inl e \<Rightarrow> Inl e
      | Inr experience \<Rightarrow>
          (case py_ge (dict_get_default l ''connections'' (PInt 0)) 100 of
             Inl e \<Rightarrow> Inl e
           | Inr connections \<Rightarrow>
               Inr (add_points connections 10 (add_points experience 15 confidence_score))))"

text \<open>\<open>record.linkedin_connections and len(record.linkedin_connections) >= 20\<close>.\<close>

definition network_depth :: "NetworkConnection list option \<Rightarrow> bool" where
  "network_depth connections =
     (case connections of None \<Rightarrow> False | Some cs \<Rightarrow> cs \<noteq> [] \<and> length cs \<ge> 20)"

text \<open>\<open>if data: block\<close> for an optional dictionary.\<close>

definition when_data :: "pydict option \<Rightarrow> (pydict \<Rightarrow> int \<Rightarrow> exn + int) \<Rightarrow> int \<Rightarrow> exn + int" where
  "when_data data block confidence_score =
     (case data of
        None \<Rightarrow> Inr confidence_score
      | Some d \<Rightarrow> if d \<noteq> [] then block d confidence_score else Inr confidence_score)"

definition assess_enhanced_confidence :: "EnhancedEnrichmentRecord \<Rightarrow> exn + string" where
  "assess_enhanced_confidence record =
     (case when_data (e_apollo_data record) enhanced_apollo_points 0 of
        Inl e \<Rightarrow> Inl e
      | Inr confidence_score \<Rightarrow>
          (case when_data (e_linkedin_data record) enhanced_linkedin_points confidence_score of
             Inl e \<Rightarrow> Inl e
           | Inr confidence_score \<Rightarrow>
               (let confidence_score =
                      add_points (network_depth (e_linkedin_connections record)) 15 confidence_score
                in Inr (if confidence_score \<ge> 80 then ''High''
                        else if confidence_score \<ge> 50 then ''Medium''
                        else ''Low''))))"

subsection \<open>Signals of the enhanced assessment\<close>

datatype enhanced_signal =
    EmailVerified | PhoneVerified | IntentData | NewsMentions
  | ExperienceDepth | ConnectionCount | NetworkDepth

definition apollo_has :: "EnhancedEnrichmentRecord \<Rightarrow> (pydict \<Rightarrow> bool) \<Rightarrow> bool" where
  "apollo_has record P = (case e_apollo_data record of None \<Rightarrow> False | Some a \<Rightarrow> a \<noteq> [] \<and> P a)"

definition linkedin_has :: "EnhancedEnrichmentRecord \<Rightarrow> (pydict \<Rightarrow> bool) \<Rightarrow> bool" where
  "linkedin_has record P = (case e_linkedin_data record of None \<Rightarrow> False | Some l \<Rightarrow> l \<noteq> [] \<and> P l)"

fun has_enhanced_signal :: "EnhancedEnrichmentRecord \<Rightarrow> enhanced_signal \<Rightarrow> bool" where
  "has_enhanced_signal record EmailVerified =
     apollo_has record (\<lambda>a. truthy (dict_get a ''email_verified''))"
| "has_enhanced_signal record PhoneVerified =
     apollo_has record (\<lambda>a. truthy (dict_get a ''phone_verified''))"
| "has_enhanced_signal record IntentData =
     apollo_has record (\<lambda>a. truthy (dict_get a ''intent_data''))"
| "has_enhanced_signal record NewsMentions =
     apollo_has record (\<lambda>a. py_gt (dict_get_default a ''news_mentions'' (PInt 0)) 0 = Inr True)"
| "has_enhanced_signal record ExperienceDepth =
     linkedin_has record (\<lambda>l. py_ge (dict_get_default l ''experience_count'' (PInt 0)) 2 = Inr True)"
| "has_enhanced_signal record ConnectionCount =
     linkedin_has record (\<lambda>l. py_ge (dict_get_default l ''connections'' (PInt 0)) 100 = Inr True)"
| "has_enhanced_signal record NetworkDepth = network_depth (e_linkedin_connections record)"

definition all_enhanced_signals :: "enhanced_signal list" where
  "all_enhanced_signals =
     [EmailVerified, PhoneVerified, IntentData, NewsMentions,
      ExperienceDepth, ConnectionCount, NetworkDepth]"

definition enhanced_signals_included ::
  "EnhancedEnrichmentRecord \<Rightarrow> EnhancedEnrichmentRecord \<Rightarrow> bool" where
  "enhanced_signals_included r1 r2 =
     list_all (\<lambda>s. \<not> has_enhanced_signal r1 s \<or> has_enhanced_signal r2 s) all_enhanced_signals"

section \<open>The outside world\<close>

text \<open>
  Every HTTP call either raises \<open>requests.exceptions.RequestException\<close> (connection
  failure, or an HTTP error status through \<open>raise_for_status\<close>), raises some other
  exception while the response is decoded (\<open>response.json()['data']\<close> on a body
  without that key, for instance), or returns the decoded value.
\<close>

datatype 'a reply = RequestException | Raises exn | Returns 'a

text \<open>An aware or naive \<open>datetime\<close>, in microseconds since the epoch.\<close>

datatype pydatetime = Naive int | Aware int

text \<open>
  The environment of one run of the service. Times of the polling loop are in
  milliseconds; a call's duration is a natural number, so every call returns and the
  clock never runs backwards.
  \<^item> \<open>get_person\<close>: the person data of an id, that is \<open>get_all_people\<close>, the search for
    the id and \<open>extract_person_data\<close>; \<open>None\<close> when no person has the id.
  \<^item> \<open>query_enrichment\<close>: the \<open>results\<close> list of the Notion query for the enrichment
    records of a person id.
  \<^item> \<open>now\<close>: \<open>datetime.now().astimezone()\<close>; \<open>fromisoformat\<close>:
    \<open>datetime.fromisoformat\<close>, \<open>None\<close> when it raises \<open>ValueError\<close>;
    \<open>json_dumps\<close>: \<open>json.dumps\<close>.
  \<^item> \<open>run_actor\<close>: the \<open>data\<close> object answered to the POST that starts an actor run.
  \<^item> \<open>status_check\<close>: duration and \<open>data\<close> object of the k-th status request for a
    run id; \<open>fetch_items\<close>: duration and item list of a dataset.
  \<^item> \<open>create_page\<close>: the page object answered to the POST that stores a record.
\<close>

record ('r) env =
  get_person :: "string \<Rightarrow> pydict option"
  query_enrichment :: "string \<Rightarrow> pydict list reply"
  now :: int
  fromisoformat :: "string \<Rightarrow> pydatetime option"
  json_dumps :: "pydict \<Rightarrow> string"
  run_actor :: "string \<Rightarrow> pydict \<Rightarrow> pydict reply"
  status_check :: "pyval \<Rightarrow> nat \<Rightarrow> nat \<times> pydict reply"
  fetch_items :: "pyval \<Rightarrow> nat \<times> pydict list reply"
  create_page :: "'r \<Rightarrow> pydict reply"

text \<open>The calls made to the provider, in order.\<close>

datatype call = ActorRun string pydict | StatusCheck pyval | DatasetFetch pyval

text \<open>
  A computation that may raise and that records its provider calls; \<open>and_then\<close> runs a
  second computation on the result of a first one that did not raise.
\<close>

type_synonym 'a io = "(exn + 'a) \<times> call list"

definition and_then :: "'a io \<Rightarrow> ('a \<Rightarrow> 'b io) \<Rightarrow> 'b io" where
  "and_then m f =
     (case m of
        (Inl e, cs) \<Rightarrow> (Inl e, cs)
      | (Inr x, cs) \<Rightarrow> (case f x of (r, cs') \<Rightarrow> (r, cs @ cs')))"

section \<open>Job dispatch and polling\<close>

definition apollo_actor_id :: string where
  "apollo_actor_id = ''jljBwyyQakqrL1wae''"

definition linkedin_actor_id :: string where
  "linkedin_actor_id = ''PEgClm7RgRD7YO94b''"

text \<open>
  \<open>_run_apify_actor\<close>: one POST; a \<open>RequestException\<close> is caught and gives \<open>None\<close>.
\<close>

definition run_apify_actor :: "'r env \<Rightarrow> string \<Rightarrow> pydict \<Rightarrow> pydict option io" where
  "run_apify_actor env actor_id input_data =
     (case run_actor env actor_id input_data of
        RequestException \<Rightarrow> Inr None
      | Raises e \<Rightarrow> Inl e
      | Returns data \<Rightarrow> Inr (Some data),
      [ActorRun actor_id input_data])"

text \<open>
  The part of \<open>_get_actor_results\<close> under \<open>if status == 'SUCCEEDED'\<close>: read
  \<open>run_data['defaultDatasetId']\<close> and fetch the items. The result is the outcome, the
  time the fetch took and the calls made.
\<close>

definition fetch_results ::
  "'r env \<Rightarrow> pydict \<Rightarrow> (exn + pydict list option) \<times> nat \<times> call list" where
  "fetch_results env run_data =
     (case dict_item run_data ''defaultDatasetId'' of
        Inl e \<Rightarrow> (Inl e, 0, [])
      | Inr dataset_id \<Rightarrow>
          (case fetch_items env dataset_id of
             (d, RequestException) \<Rightarrow> (Inr None, d, [DatasetFetch dataset_id])
           | (d, Raises e) \<Rightarrow> (Inl e, d, [DatasetFetch dataset_id])
           | (d, Returns items) \<Rightarrow> (Inr (Some items), d, [DatasetFetch dataset_id])))"

definition poll_interval :: nat where
  "poll_interval = 15000"

definition failure_statuses :: "pyval list" where
  "failure_statuses = [PStr ''FAILED'', PStr ''ABORTED'', PStr ''TIMED-OUT'']"

text \<open>
  The loop of \<open>_get_actor_results\<close>. \<open>elapsed\<close> is \<open>time.time() - start_time\<close> when the
  loop condition is evaluated and \<open>k\<close> counts the status requests made so far. The
  result is the outcome (\<open>Inr None\<close> for \<open>return None\<close>), the time elapsed at the return
  and the calls made. \<open>max_wait_time\<close> is in seconds.
\<close>

function poll_loop ::
  "'r env \<Rightarrow> pyval \<Rightarrow> nat \<Rightarrow> nat \<Rightarrow> nat \<Rightarrow> (exn + pydict list option) \<times> nat \<times> call list" where
  "poll_loop env run_id max_wait_time elapsed k =
     (if elapsed < 1000 * max_wait_time then
        (case status_check env run_id k of
           (d, RequestException) \<Rightarrow> (Inr None, elapsed + d, [StatusCheck run_id])
         | (d, Raises e) \<Rightarrow> (Inl e, elapsed + d, [StatusCheck run_id])
         | (d, Returns run_data) \<Rightarrow>
             if dict_get run_data ''status'' = PStr ''SUCCEEDED'' then
               (case fetch_results env run_data of
                  (r, d', cs) \<Rightarrow> (r, elapsed + d + d', StatusCheck run_id # cs))
             else if dict_get run_data ''status'' \<in> set failure_statuses then
               (Inr None, elapsed + d, [StatusCheck run_id])
             else
               (case poll_loop env run_id max_wait_time (elapsed + d + poll_interval) (Suc k) of
                  (r, t, cs) \<Rightarrow> (r, t, StatusCheck run_id # cs)))
      else (Inr None, elapsed, []))"
  by pat_completeness auto
termination
  by (relation "measure (\<lambda>(env, run_id, max_wait_time, elapsed, k). 1000 * max_wait_time - elapsed)")
     (auto simp: poll_interval_def)

declare poll_loop.simps [simp del]

definition get_actor_results ::
  "'r env \<Rightarrow> pyval \<Rightarrow> nat \<Rightarrow> (exn + pydict list option) \<times> nat \<times> call list" where
  "get_actor_results env run_id max_wait_time = poll_loop env run_id max_wait_time 0 0"

text \<open>The provider calls of a poll, as a computation that forgets the time.\<close>

definition polled :: "(exn + 'a) \<times> nat \<times> call list \<Rightarrow> 'a io" where
  "polled p = (case p of (r, t, cs) \<Rightarrow> (r, cs))"

text \<open>The number of status requests among the calls of a poll.\<close>

definition is_status_check :: "call \<Rightarrow> bool" where
  "is_status_check c = (case c of StatusCheck r \<Rightarrow> True | _ \<Rightarrow> False)"

definition status_checks :: "call list \<Rightarrow> nat" where
  "status_checks cs = length (filter is_status_check cs)"

section \<open>The provider pipelines of the improved service\<close>

text \<open>\<open>name.split(' ', 1)\<close>: split at the first space, if there is one.\<close>

definition split_first_space :: "string \<Rightarrow> string list" where
  "split_first_space s =
     (case dropWhile (\<lambda>c. c \<noteq> CHR '' '') s of
        [] \<Rightarrow> [s]
      | c # rest \<Rightarrow> [takeWhile (\<lambda>c. c \<noteq> CHR '' '') s, rest])"

text \<open>\<open>if d.get(k): criteria[k'] = [d[k]]\<close> and \<open>if d.get(k): criteria[k'] = d[k]\<close>.\<close>

definition set_list_if :: "pydict \<Rightarrow> string \<Rightarrow> string \<Rightarrow> pydict \<Rightarrow> pydict" where
  "set_list_if d k k' criteria =
     (if truthy (dict_get d k) then dict_set criteria k' (PList [dict_get d k]) else criteria)"

definition set_value_if :: "pydict \<Rightarrow> string \<Rightarrow> string \<Rightarrow> pydict \<Rightarrow> pydict" where
  "set_value_if d k k' criteria =
     (if truthy (dict_get d k) then dict_set criteria k' (dict_get d k) else criteria)"

text \<open>
  \<open>_prepare_apollo_search\<close>. A truthy name that is not a string has no \<open>split\<close>.
\<close>

definition prepare_apollo_search :: "pydict \<Rightarrow> exn + pydict option" where
  "prepare_apollo_search person_data =
     (let name = dict_get_default person_data ''name'' (PStr []) in
      case (if truthy name then
              (case name of
                 PStr n \<Rightarrow>
                   Inr (if length (split_first_space n) \<ge> 2
                        then dict_set [] ''person_name'' name else [])
               | _ \<Rightarrow> Inl (no_attribute name ''split''))
            else Inr []) of
        Inl e \<Rightarrow> Inl e
      | Inr search_criteria \<Rightarrow>
          (let search_criteria = set_list_if person_data ''employer'' ''organization_names'' search_criteria;
               search_criteria = set_list_if person_data ''position'' ''person_titles'' search_criteria;
               search_criteria = set_value_if person_data ''primary_email'' ''email'' search_criteria
           in if search_criteria = [] then Inr None
              else Inr (Some [(''searchCriteria'', PDict search_criteria),
                              (''maxResults'', PInt 5),
                              (''includeEmails'', PBool True),
                              (''includePhoneNumbers'', PBool True)])))"

text \<open>\<open>_process_apollo_results\<close>: the first result is taken as the best match.\<close>

definition process_apollo_results :: "'r env \<Rightarrow> pydict list \<Rightarrow> pydict" where
  "process_apollo_results env results =
     (case results of
        [] \<Rightarrow> []
      | best_match # others \<Rightarrow>
          [(''raw_data'', PStr (json_dumps env best_match)),
           (''email'', dict_get best_match ''email''),
           (''personal_email'', dict_get best_match ''personal_email''),
           (''phone'', dict_get best_match ''phone_number''),
           (''mobile'', dict_get best_match ''mobile_phone_number''),
           (''title'', dict_get best_match ''title''),
           (''company'', dict_get best_match ''organization_name''),
           (''industry'', dict_get best_match ''industry''),
           (''city'', dict_get best_match ''city''),
           (''state'', dict_get best_match ''state''),
           (''country'', dict_get best_match ''country''),
           (''linkedin_url'', dict_get best_match ''linkedin_url''),
           (''company_size'', dict_get best_match ''organization_num_employees''),
           (''department'', dict_get best_match ''department''),
           (''seniority'', dict_get best_match ''seniority'')])"

text \<open>
  \<open>results[0]\<close> of the LinkedIn pipeline, which is reached with a non-empty list only.
\<close>

definition first_result :: "pydict list \<Rightarrow> pydict" where
  "first_result results = (case results of [] \<Rightarrow> [] | profile # others \<Rightarrow> profile)"

text \<open>
  The common tail of both \<open>_run_..._enrichment_safe\<close> functions: start the actor, give up
  when no run came back, read \<open>run_response['id']\<close>, wait for the results (three minutes
  at most) and hand a non-empty result list to \<open>process\<close>.
\<close>

definition run_and_collect ::
  "'r env \<Rightarrow> string \<Rightarrow> pydict \<Rightarrow> (pydict list \<Rightarrow> pydict) \<Rightarrow> pydict option io" where
  "run_and_collect env actor_id actor_input process =
     and_then (run_apify_actor env actor_id actor_input) (\<lambda>run_response.
       case run_response of
         None \<Rightarrow> (Inr None, [])
       | Some run \<Rightarrow>
           if run = [] then (Inr None, [])
           else
             (case dict_item run ''id'' of
                Inl e \<Rightarrow> (Inl e, [])
              | Inr run_id \<Rightarrow>
                  and_then (polled (get_actor_results env run_id 180)) (\<lambda>results.
                    case results of
                      None \<Rightarrow> (Inr None, [])
                    | Some items \<Rightarrow>
                        if items \<noteq> [] \<and> length items > 0
                        then (Inr (Some (process items)), [])
                        else (Inr None, []))))"

definition run_apollo_enrichment_safe :: "'r env \<Rightarrow> pydict \<Rightarrow> pydict option io" where
  "run_apollo_enrichment_safe env person_data =
     (case prepare_apollo_search person_data of
        Inl e \<Rightarrow> (Inl e, [])
      | Inr None \<Rightarrow> (Inr None, [])
      | Inr (Some apollo_input) \<Rightarrow>
          run_and_collect env apollo_actor_id apollo_input (process_apollo_results env))"

definition run_linkedin_enrichment_safe :: "'r env \<Rightarrow> pydict \<Rightarrow> pydict option io" where
  "run_linkedin_enrichment_safe env person_data =
     (let linkedin_url = dict_get person_data ''linkedin'' in
      if \<not> truthy linkedin_url then (Inr None, [])
      else
        run_and_collect env linkedin_actor_id
          [(''profileUrls'', PList [linkedin_url]),
           (''includeContacts'', PBool True),
           (''includeSkills'', PBool True),
           (''includeExperience'', PBool True),
           (''includeEducation'', PBool True)]
          first_result)"

section \<open>Staleness gate, stored records and the complete workflow\<close>

text \<open>
  \<open>_find_existing_enrichment\<close>: the first result of the query, \<open>None\<close> when there is
  none or when the request fails.
\<close>

definition find_existing_enrichment :: "'r env \<Rightarrow> string \<Rightarrow> exn + pydict option" where
  "find_existing_enrichment env person_id =
     (case query_enrichment env person_id of
        RequestException \<Rightarrow> Inr None
      | Raises e \<Rightarrow> Inl e
      | Returns results \<Rightarrow> Inr (case results of [] \<Rightarrow> None | page # others \<Rightarrow> Some page))"

text \<open>\<open>s.replace('Z', '+00:00')\<close>.\<close>

definition replace_Z :: "string \<Rightarrow> string" where
  "replace_Z s = concat (map (\<lambda>c. if c = CHR ''Z'' then ''+00:00'' else [c]) s)"

definition microseconds_per_day :: int where
  "microseconds_per_day = 86400000000"

text \<open>
  \<open>(datetime.now().astimezone() - last_update).days\<close>: the whole days of the difference,
  rounded down.
\<close>

definition days_since_update :: "int \<Rightarrow> int \<Rightarrow> int" where
  "days_since_update current last_update = (current - last_update) div microseconds_per_day"

text \<open>
  The \<open>try\<close> block of \<open>_should_update_enrichment\<close>; every exception in it gives \<open>True\<close>:
  a value without \<open>replace\<close>, a string that does not parse, and a naive datetime, which
  cannot be subtracted from an aware one.
\<close>

definition older_than_30_days :: "'r env \<Rightarrow> pyval \<Rightarrow> bool" where
  "older_than_30_days env last_update_str =
     (case last_update_str of
        PStr s \<Rightarrow>
          (case fromisoformat env (replace_Z s) of
             None \<Rightarrow> True
           | Some (Naive t) \<Rightarrow> True
           | Some (Aware last_update) \<Rightarrow> days_since_update (now env) last_update > 30)
      | _ \<Rightarrow> True)"

definition should_update_enrichment :: "'r env \<Rightarrow> pydict \<Rightarrow> exn + bool" where
  "should_update_enrichment env existing_record =
     (case py_get (dict_get_default existing_record ''properties'' (PDict [])) ''Last Updated'' (PDict []) of
        Inl e \<Rightarrow> Inl e
      | Inr last_enriched \<Rightarrow>
          if \<not> truthy last_enriched then Inr True
          else
            (case py_get last_enriched ''last_edited_time'' PNone of
               Inl e \<Rightarrow> Inl e
             | Inr last_update_str \<Rightarrow>
                 if \<not> truthy last_update_str then Inr True
                 else Inr (older_than_30_days env last_update_str)))"

text \<open>
  One property of \<open>_extract_enrichment_record\<close>:
  \<open>if properties.get(p, {}).get(k): x = properties[p][k]\<close>, the value found or
  \<open>None\<close> when the test fails.
\<close>

definition property_value :: "pyval \<Rightarrow> string \<Rightarrow> string \<Rightarrow> exn + pyval option" where
  "property_value properties p k =
     (case py_get properties p (PDict []) of
        Inl e \<Rightarrow> Inl e
      | Inr prop \<Rightarrow>
          (case py_get prop k PNone of
             Inl e \<Rightarrow> Inl e
           | Inr v \<Rightarrow> Inr (if truthy v then Some v else None)))"

text \<open>\<open>v[0]['plain_text']\<close>.\<close>

definition first_plain_text :: "pyval \<Rightarrow> exn + pyval" where
  "first_plain_text v =
     (case py_item0 v of Inl e \<Rightarrow> Inl e | Inr x \<Rightarrow> py_item x ''plain_text'')"

text \<open>
  One field of \<open>_extract_enrichment_record\<close>:
  \<open>x = default; if properties.get(p, {}).get(k): x = read(properties[p][k])\<close>.
\<close>

definition stored_field ::
  "pyval \<Rightarrow> string \<Rightarrow> string \<Rightarrow> pyval \<Rightarrow> (pyval \<Rightarrow> exn + pyval) \<Rightarrow> exn + pyval" where
  "stored_field properties p k dflt read =
     (case property_value properties p k of
        Inl e \<Rightarrow> Inl e
      | Inr None \<Rightarrow> Inr dflt
      | Inr (Some v) \<Rightarrow> read v)"

definition extract_enrichment_record :: "pydict \<Rightarrow> exn + EnrichmentRecord" where
  "extract_enrichment_record notion_page =
     (let properties = dict_get_default notion_page ''properties'' (PDict []) in
      case stored_field properties ''Person Name'' ''title'' (PStr []) first_plain_text of
        Inl e \<Rightarrow> Inl e
      | Inr stored_name \<Rightarrow>
          (case stored_field properties ''Original Record ID'' ''rich_text'' (PStr [])
                  first_plain_text of
             Inl e \<Rightarrow> Inl e
           | Inr original_id \<Rightarrow>
               (case stored_field properties ''Enrichment Status'' ''select'' (PStr ''Unknown'')
                       (\<lambda>v. py_item v ''name'') of
                  Inl e \<Rightarrow> Inl e
                | Inr status \<Rightarrow>
                    Inr ((new_record stored_name original_id) \<lparr> enrichment_status := status \<rparr>))))"

text \<open>
  Step 2 of \<open>enrich_person_complete\<close>: look for a stored record and decide whether to
  return it (\<open>Skip\<close>) or to run the enrichment (\<open>Rerun\<close>). The message printed for a
  stored record reads \<open>existing_record['id']\<close>.
\<close>

datatype gate_decision = Skip pydict | Rerun

definition staleness_gate :: "'r env \<Rightarrow> string \<Rightarrow> exn + gate_decision" where
  "staleness_gate env person_id =
     (case find_existing_enrichment env person_id of
        Inl e \<Rightarrow> Inl e
      | Inr None \<Rightarrow> Inr Rerun
      | Inr (Some existing_record) \<Rightarrow>
          if existing_record = [] then Inr Rerun
          else
            (case dict_item existing_record ''id'' of
               Inl e \<Rightarrow> Inl e
             | Inr page_id \<Rightarrow>
                 (case should_update_enrichment env existing_record of
                    Inl e \<Rightarrow> Inl e
                  | Inr should_update \<Rightarrow>
                      Inr (if \<not> should_update then Skip existing_record else Rerun))))"

text \<open>
  \<open>if not record.errors: record.errors = []\<close> followed by \<open>record.errors.append(msg)\<close>.
\<close>

definition add_error :: "string \<Rightarrow> EnrichmentRecord \<Rightarrow> EnrichmentRecord" where
  "add_error error_msg record = record
     \<lparr> errors := Some ((case errors record of None \<Rightarrow> [] | Some es \<Rightarrow> es) @ [error_msg]) \<rparr>"

text \<open>Truthiness of the error list.\<close>

definition has_errors :: "EnrichmentRecord \<Rightarrow> bool" where
  "has_errors record = (case errors record of None \<Rightarrow> False | Some es \<Rightarrow> es \<noteq> [])"

text \<open>
  Steps 4 and 5: a provider is run when the person has its qualifying field; its result
  is stored in the record, and an exception is turned into an entry of the error list.
\<close>

definition apollo_step :: "'r env \<Rightarrow> pydict \<Rightarrow> EnrichmentRecord \<Rightarrow> EnrichmentRecord \<times> call list" where
  "apollo_step env person_data record =
     (if truthy (dict_get person_data ''primary_email'') \<or> truthy (dict_get person_data ''employer'')
      then
        (case run_apollo_enrichment_safe env person_data of
           (Inr data, cs) \<Rightarrow> (record \<lparr> apollo_data := data \<rparr>, cs)
         | (Inl e, cs) \<Rightarrow> (add_error (''Apollo enrichment failed: '' @ str_exn e) record, cs))
      else (record, []))"

definition linkedin_step :: "'r env \<Rightarrow> pydict \<Rightarrow> EnrichmentRecord \<Rightarrow> EnrichmentRecord \<times> call list" where
  "linkedin_step env person_data record =
     (if truthy (dict_get person_data ''linkedin'')
      then
        (case run_linkedin_enrichment_safe env person_data of
           (Inr data, cs) \<Rightarrow> (record \<lparr> linkedin_data := data \<rparr>, cs)
         | (Inl e, cs) \<Rightarrow> (add_error (''LinkedIn enrichment failed: '' @ str_exn e) record, cs))
      else (record, []))"

text \<open>Step 6: the quality metrics.\<close>

definition score_step :: "EnrichmentRecord \<Rightarrow> EnrichmentRecord" where
  "score_step record =
     (let record = record \<lparr> completeness_score := calculate_completeness record \<rparr>
      in record \<lparr> data_confidence := assess_data_confidence record \<rparr>)"

text \<open>Step 7: the final status.\<close>

definition status_step :: "EnrichmentRecord \<Rightarrow> EnrichmentRecord" where
  "status_step record =
     (if has_errors record then
        (if truthy_data (apollo_data record) \<or> truthy_data (linkedin_data record)
         then record \<lparr> enrichment_status := PStr ''Partial'' \<rparr>
         else record \<lparr> enrichment_status := PStr ''Failed'' \<rparr>)
      else record \<lparr> enrichment_status := PStr ''Completed'' \<rparr>)"

text \<open>Steps 3 to 7: the record of a new enrichment, and the provider calls made for it.\<close>

definition run_enrichment ::
  "'r env \<Rightarrow> string \<Rightarrow> pydict \<Rightarrow> EnrichmentRecord \<times> call list" where
  "run_enrichment env person_id person_data =
     (let record = (new_record (dict_get_default person_data ''name'' (PStr ''Unknown''))
                               (PStr person_id))
                     \<lparr> enrichment_status := PStr ''In Progress'' \<rparr>
      in case apollo_step env person_data record of
           (record, cs1) \<Rightarrow>
             (case linkedin_step env person_data record of
                (record, cs2) \<Rightarrow> (status_step (score_step record), cs1 @ cs2)))"

text \<open>
  \<open>_store_enrichment_record\<close>: the page properties are a function of the record, so the
  environment answers per record. A failed request gives \<open>None\<close>, a stored page its
  \<open>id\<close>.
\<close>

definition store_enrichment_record :: "EnrichmentRecord env \<Rightarrow> EnrichmentRecord \<Rightarrow> exn + pyval option" where
  "store_enrichment_record env record =
     (case create_page env record of
        RequestException \<Rightarrow> Inr None
      | Raises e \<Rightarrow> Inl e
      | Returns page_info \<Rightarrow>
          (case dict_item page_info ''id'' of Inl e \<Rightarrow> Inl e | Inr page_id \<Rightarrow> Inr (Some page_id)))"

text \<open>
  \<open>enrich_person_complete\<close>. Step 9, the link written back to the person's page, catches
  its only exception and returns nothing, so it does not show in the result.
\<close>

definition enrich_person_complete :: "EnrichmentRecord env \<Rightarrow> string \<Rightarrow> EnrichmentRecord io" where
  "enrich_person_complete env person_id =
     (case get_person env person_id of
        None \<Rightarrow>
          (Inr ((new_record (PStr ''Unknown'') (PStr person_id))
                  \<lparr> errors := Some [''Person not found''] \<rparr>), [])
      | Some person_data \<Rightarrow>
          (case staleness_gate env person_id of
             Inl e \<Rightarrow> (Inl e, [])
           | Inr (Skip existing_record) \<Rightarrow> (extract_enrichment_record existing_record, [])
           | Inr Rerun \<Rightarrow>
               (case run_enrichment env person_id person_data of
                  (record, cs) \<Rightarrow>
                    (case store_enrichment_record env record of
                       Inl e \<Rightarrow> (Inl e, cs)
                     | Inr enrichment_page_id \<Rightarrow> (Inr record, cs)))))"

text \<open>Whether the record an attempt computes is stored.\<close>

definition persistence_succeeded :: "EnrichmentRecord env \<Rightarrow> EnrichmentRecord \<Rightarrow> bool" where
  "persistence_succeeded env record =
     (case store_enrichment_record env record of Inr (Some page_id) \<Rightarrow> True | _ \<Rightarrow> False)"

subsection \<open>What a stored page holds\<close>

text \<open>
  \<open>_store_enrichment_record\<close> writes the completeness score of a record as the number
  property \<open>Completeness Score\<close> and its confidence level as the select property
  \<open>Data Confidence\<close>; these read them back from a stored page.
\<close>

definition stored_property :: "pydict \<Rightarrow> string \<Rightarrow> pydict" where
  "stored_property page p =
     (case dict_get page ''properties'' of
        PDict props \<Rightarrow> (case dict_get props p of PDict d \<Rightarrow> d | _ \<Rightarrow> [])
      | _ \<Rightarrow> [])"

definition stored_completeness_score :: "pydict \<Rightarrow> pyval" where
  "stored_completeness_score page = dict_get (stored_property page ''Completeness Score'') ''number''"

definition stored_data_confidence :: "pydict \<Rightarrow> pyval" where
  "stored_data_confidence page =
     (case dict_get (stored_property page ''Data Confidence'') ''select'' of
        PDict d \<Rightarrow> dict_get d ''name''
      | _ \<Rightarrow> PNone)"

section \<open>The contact-provider phase of the enhanced service\<close>

text \<open>The dataclass constructor of the enhanced record.\<close>

definition new_enhanced_record :: "pyval \<Rightarrow> pyval \<Rightarrow> EnhancedEnrichmentRecord" where
  "new_enhanced_record pname rid =
     \<lparr> e_person_name = pname, e_original_record_id = rid,
       e_apollo_data = None, e_linkedin_data = None,
       e_linkedin_connections = None, e_network_analysis = None,
       e_external_data_sources = None,
       e_enrichment_status = PStr ''Not Started'',
       e_data_confidence = ''Medium'',
       e_completeness_score = 0,
       e_errors = None \<rparr>"

text \<open>
  The first block of \<open>_build_comprehensive_apollo_search\<close>: first and last name from the
  split of the name.
\<close>

definition name_criteria :: "pydict \<Rightarrow> exn + pydict" where
  "name_criteria person_data =
     (let full_name = dict_get person_data ''name'' in
      if truthy full_name then
        (case full_name of
           PStr n \<Rightarrow>
             (let name_parts = split_first_space n;
                  criteria = dict_set [] ''first_name''
                               (case name_parts of [] \<Rightarrow> PStr [] | part0 # others \<Rightarrow> PStr part0)
              in Inr (dict_set criteria ''last_name''
                        (case name_parts of part0 # part1 # others \<Rightarrow> PStr part1 | _ \<Rightarrow> PStr [])))
         | _ \<Rightarrow> Inl (no_attribute full_name ''split''))
      else Inr [])"

text \<open>
  \<open>if person_data.get('state'): criteria['person_locations'].append(person_data['state'])\<close>:
  the list is read from \<open>criteria\<close>, where only the city block puts it.
\<close>

definition append_state :: "pydict \<Rightarrow> pydict \<Rightarrow> exn + pydict" where
  "append_state person_data criteria =
     (if truthy (dict_get person_data ''state'') then
        (case dict_item criteria ''person_locations'' of
           Inl e \<Rightarrow> Inl e
         | Inr (PList locations) \<Rightarrow>
             Inr (dict_set criteria ''person_locations''
                    (PList (locations @ [dict_get person_data ''state''])))
         | Inr v \<Rightarrow> Inl (no_attribute v ''append''))
      else Inr criteria)"

definition veteran_keywords :: pyval where
  "veteran_keywords =
     PList [PStr ''veteran'', PStr ''military'', PStr ''navy'', PStr ''army'',
            PStr ''air force'', PStr ''marines'']"

definition build_comprehensive_apollo_search :: "pydict \<Rightarrow> exn + pydict" where
  "build_comprehensive_apollo_search person_data =
     (case name_criteria person_data of
        Inl e \<Rightarrow> Inl e
      | Inr criteria \<Rightarrow>
          (let criteria = set_list_if person_data ''employer'' ''organization_names'' criteria;
               criteria = set_list_if person_data ''position'' ''person_titles'' criteria;
               criteria = set_value_if person_data ''primary_email'' ''email'' criteria;
               criteria = set_list_if person_data ''city'' ''person_locations'' criteria
           in case append_state person_data criteria of
                Inl e \<Rightarrow> Inl e
              | Inr criteria \<Rightarrow>
                  (let criteria = set_list_if person_data ''industry'' ''organization_industries'' criteria;
                       criteria = set_list_if person_data ''undergrad_school'' ''education'' criteria
                   in Inr (if truthy (dict_get person_data ''military'')
                           then dict_set criteria ''keywords'' veteran_keywords
                           else criteria))))"

text \<open>
  A person's name is text when it is a string, or falsy (absent, \<open>None\<close>, empty), as
  \<open>extract_person_data\<close> delivers it.
\<close>

definition name_is_text :: "pydict \<Rightarrow> bool" where
  "name_is_text person_data =
     (case dict_get person_data ''name'' of PStr n \<Rightarrow> True | v \<Rightarrow> \<not> truthy v)"

text \<open>\<open>_process_enhanced_apollo_results\<close>: again the first result is taken.\<close>

definition process_enhanced_apollo_results :: "'r env \<Rightarrow> pydict list \<Rightarrow> pydict" where
  "process_enhanced_apollo_results env results =
     (case results of
        [] \<Rightarrow> []
      | best_match # others \<Rightarrow>
          [(''raw_data'', PStr (json_dumps env best_match)),
           (''email'', dict_get best_match ''email''),
           (''personal_email'', dict_get best_match ''personal_email''),
           (''phone'', dict_get best_match ''phone_number''),
           (''mobile'', dict_get best_match ''mobile_phone_number''),
           (''email_verified'', dict_get_default best_match ''email_verified'' (PBool False)),
           (''phone_verified'', dict_get_default best_match ''phone_verified'' (PBool False)),
           (''email_source'', dict_get_default best_match ''email_source'' (PStr ''Unknown'')),
           (''phone_source'', dict_get_default best_match ''phone_source'' (PStr ''Unknown'')),
           (''title'', dict_get best_match ''title''),
           (''company'', dict_get best_match ''organization_name''),
           (''industry'', dict_get best_match ''industry''),
           (''department'', dict_get best_match ''department''),
           (''seniority'', dict_get best_match ''seniority''),
           (''city'', dict_get best_match ''city''),
           (''state'', dict_get best_match ''state''),
           (''country'', dict_get best_match ''country''),
           (''linkedin_url'', dict_get best_match ''linkedin_url''),
           (''company_size'', dict_get best_match ''organization_num_employees''),
           (''revenue_range'', dict_get best_match ''organization_annual_revenue''),
           (''funding_stage'', dict_get best_match ''organization_funding_stage''),
           (''employee_headcount_change'', dict_get best_match ''organization_headcount_change''),
           (''technographics'', dict_get_default best_match ''organization_technologies'' (PList [])),
           (''intent_data'', dict_get best_match ''intent_signals''),
           (''news_mentions'', dict_get_default best_match ''news_mentions_count'' (PInt 0)),
           (''social_media_presence'', dict_get_default best_match ''social_media_profiles'' (PList [])),
           (''patent_count'', dict_get_default best_match ''patent_count'' (PInt 0)),
           (''press_releases'', dict_get_default best_match ''press_releases'' (PList [])),
           (''event_participation'', dict_get_default best_match ''event_participation'' (PList [])),
           (''board_positions'', dict_get_default best_match ''board_positions'' (PList [])),
           (''advisory_roles'', dict_get_default best_match ''advisory_roles'' (PList [])),
           (''speaking_engagements'', dict_get_default best_match ''speaking_engagements'' (PList [])),
           (''external_certifications'', dict_get_default best_match ''external_certifications'' (PList [])),
           (''publications'', dict_get_default best_match ''publications'' (PList []))])"

definition all_true :: "string list \<Rightarrow> pyval" where
  "all_true ks = PDict (map (\<lambda>k. (k, PBool True)) ks)"

text \<open>
  The actor input of \<open>_run_enhanced_apollo_enrichment\<close>. Its first entry is the search
  criteria, so building them is the first thing the function does.
\<close>

definition enhanced_apollo_input :: "pydict \<Rightarrow> pydict" where
  "enhanced_apollo_input criteria =
     [(''searchCriteria'', PDict criteria),
      (''dataEnrichment'',
         all_true [''includeEmails'', ''includePhoneNumbers'', ''includeEmploymentHistory'',
                   ''includeEducation'', ''includeTechnographics'', ''includeIntentData'',
                   ''includeFundingData'', ''includeNewsAndSocial'',
                   ''includePatentsAndPublications'', ''includeBoardPositions'',
                   ''includeSpeakingEngagements'', ''includeExternalCertifications'']),
      (''externalDataSources'',
         all_true [''enableCrunchbase'', ''enableZoomInfo'', ''enableBusinessRegistries'',
                   ''enableSocialMediaAggregation'', ''enableNewsAPI'', ''enablePatentDatabases'',
                   ''enableSecFilings'', ''enablePressReleases'']),
      (''verificationLevel'', PStr ''strict''),
      (''maxResults'', PInt 10)]"

text \<open>
  \<open>_run_enhanced_apollo_enrichment\<close>: it returns a dictionary, the empty one when the
  run did not start or gave no result. The enhanced service polls with the same loop,
  for five minutes at most.
\<close>

definition run_enhanced_apollo_enrichment :: "'r env \<Rightarrow> pydict \<Rightarrow> pydict io" where
  "run_enhanced_apollo_enrichment env person_data =
     (case build_comprehensive_apollo_search person_data of
        Inl e \<Rightarrow> (Inl e, [])
      | Inr criteria \<Rightarrow>
          and_then (run_apify_actor env apollo_actor_id (enhanced_apollo_input criteria))
            (\<lambda>run_response.
               case run_response of
                 None \<Rightarrow> (Inr [], [])
               | Some run \<Rightarrow>
                   if run = [] then (Inr [], [])
                   else
                     (case dict_item run ''id'' of
                        Inl e \<Rightarrow> (Inl e, [])
                      | Inr run_id \<Rightarrow>
                          and_then (polled (get_actor_results env run_id 300)) (\<lambda>results.
                            case results of
                              None \<Rightarrow> (Inr [], [])
                            | Some items \<Rightarrow>
                                if items \<noteq> [] \<and> length items > 0
                                then (Inr (process_enhanced_apollo_results env items), [])
                                else (Inr [], [])))))"

text \<open>\<open>_add_error\<close> of the enhanced service.\<close>

definition e_add_error :: "EnhancedEnrichmentRecord \<Rightarrow> string \<Rightarrow> EnhancedEnrichmentRecord" where
  "e_add_error record error = record
     \<lparr> e_errors := Some ((case e_errors record of None \<Rightarrow> [] | Some es \<Rightarrow> es) @ [error]) \<rparr>"

text \<open>
  Phase 1 of \<open>comprehensive_enrich_person\<close>: when the person has a primary email or an
  employer, the contact provider is run inside \<open>try\<close>; its data is stored and the source
  label appended, or the exception becomes an entry of the error list.
\<close>

definition enhanced_apollo_phase ::
  "'r env \<Rightarrow> pydict \<Rightarrow> EnhancedEnrichmentRecord \<Rightarrow> EnhancedEnrichmentRecord \<times> call list" where
  "enhanced_apollo_phase env person_data record =
     (if truthy (dict_get person_data ''primary_email'') \<or> truthy (dict_get person_data ''employer'')
      then
        (case run_enhanced_apollo_enrichment env person_data of
           (Inl e, cs) \<Rightarrow> (e_add_error record (''Apollo enrichment failed: '' @ str_exn e), cs)
         | (Inr data, cs) \<Rightarrow>
             (let record = record \<lparr> e_apollo_data := Some data \<rparr>
              in case e_external_data_sources record of
                   None \<Rightarrow>
                     (e_add_error record
                        (''Apollo enrichment failed: '' @ str_exn (no_attribute PNone ''append'')), cs)
                 | Some sources \<Rightarrow>
                     (record \<lparr> e_external_data_sources := Some (sources @ [''Apollo'']) \<rparr>, cs)))
      else (record, []))"

section \<open>Vocabulary of the status evaluations\<close>

text \<open>At least one provider produced data: the record holds non-empty data of one.\<close>

definition produced_data :: "EnrichmentRecord \<Rightarrow> bool" where
  "produced_data record = (truthy_data (apollo_data record) \<or> truthy_data (linkedin_data record))"

section \<open>Points per signal\<close>

text \<open>
  The points each signal contributes and the three-way bucketing, named so that the
  assessments can be compared with a sum over signals.
\<close>

fun signal_points :: "signal \<Rightarrow> int" where
  "signal_points ApolloEmail = 30"
| "signal_points ApolloPhone = 20"
| "signal_points ApolloCompany = 10"
| "signal_points LinkedInHeadline = 15"
| "signal_points LinkedInExperience = 15"
| "signal_points LinkedInEducation = 10"

definition confidence_points :: "EnrichmentRecord \<Rightarrow> int" where
  "confidence_points record =
     sum_list (map (\<lambda>s. if has_signal record s then signal_points s else 0) all_signals)"

definition bucket :: "int \<Rightarrow> int \<Rightarrow> int \<Rightarrow> string" where
  "bucket hi mid score = (if score \<ge> hi then ''High'' else if score \<ge> mid then ''Medium'' else ''Low'')"

fun enhanced_signal_points :: "enhanced_signal \<Rightarrow> int" where
  "enhanced_signal_points EmailVerified = 25"
| "enhanced_signal_points PhoneVerified = 20"
| "enhanced_signal_points IntentData = 10"
| "enhanced_signal_points NewsMentions = 5"
| "enhanced_signal_points ExperienceDepth = 15"
| "enhanced_signal_points ConnectionCount = 10"
| "enhanced_signal_points NetworkDepth = 15"

definition enhanced_points_of :: "EnhancedEnrichmentRecord \<Rightarrow> enhanced_signal list \<Rightarrow> int" where
  "enhanced_points_of record sigs =
     sum_list (map (\<lambda>s. if has_enhanced_signal record s then enhanced_signal_points s else 0) sigs)"

section \<open>Concrete inputs\<close>

text \<open>Records and environments on which the theorems below are instantiated.\<close>

definition four_of_six :: EnrichmentRecord where
  "four_of_six = (new_record (PStr ''Ann Lee'') (PStr ''p1''))
     \<lparr> apollo_data := Some [(''email'', PStr ''ann@example.org''), (''phone'', PStr ''555-0100''),
                            (''title'', PStr ''Engineer''), (''company'', PStr ''Acme''),
                            (''city'', PNone), (''linkedin_url'', PNone)] \<rparr>"

definition email_only :: EnrichmentRecord where
  "email_only = (new_record (PStr ''Ann Lee'') (PStr ''p1''))
     \<lparr> apollo_data := Some [(''email'', PStr ''ann@example.org'')] \<rparr>"

definition verified_email :: EnhancedEnrichmentRecord where
  "verified_email = (new_enhanced_record (PStr ''Ann Lee'') (PStr ''p1''))
     \<lparr> e_apollo_data := Some [(''email_verified'', PBool True), (''news_mentions'', PInt 0)],
       e_linkedin_data := Some [(''experience_count'', PInt 3), (''connections'', PInt 40)] \<rparr>"

definition verified_email_and_phone :: EnhancedEnrichmentRecord where
  "verified_email_and_phone = (new_enhanced_record (PStr ''Ann Lee'') (PStr ''p1''))
     \<lparr> e_apollo_data := Some [(''email_verified'', PBool True), (''phone_verified'', PBool True),
                              (''news_mentions'', PInt 0)],
       e_linkedin_data := Some [(''experience_count'', PInt 3), (''connections'', PInt 40)] \<rparr>"

text \<open>
  An environment in which no person is known, no record is stored, no actor can be
  started, and a run that is asked for its status is still running after 200 ms.
\<close>

definition quiet_env :: "EnrichmentRecord env" where
  "quiet_env =
     \<lparr> get_person = (\<lambda>person_id. None),
       query_enrichment = (\<lambda>person_id. Returns []),
       now = 0,
       fromisoformat = (\<lambda>s. None),
       json_dumps = (\<lambda>d. ''{}''),
       run_actor = (\<lambda>actor_id input_data. RequestException),
       status_check = (\<lambda>run_id k. (200, Returns [(''status'', PStr ''RUNNING'')])),
       fetch_items = (\<lambda>dataset_id. (300, Returns [])),
       create_page = (\<lambda>record. Returns [(''id'', PStr ''page-1'')]) \<rparr>"

text \<open>
  Every request takes 20.999 s; a run is still running at its first five status requests
  and has succeeded at the sixth, with an empty dataset.
\<close>

definition slow_env :: "EnrichmentRecord env" where
  "slow_env =
     quiet_env
       \<lparr> status_check := (\<lambda>run_id k.
           (20999, if k < 5 then Returns [(''status'', PStr ''RUNNING'')]
                   else Returns [(''status'', PStr ''SUCCEEDED''),
                                 (''defaultDatasetId'', PStr ''ds-1'')])),
         fetch_items := (\<lambda>dataset_id. (20999, Returns [])) \<rparr>"

text \<open>A person with an employer and a state, and no city.\<close>

definition texan :: pydict where
  "texan = [(''name'', PStr ''Ann Lee''), (''employer'', PStr ''Acme''),
            (''primary_email'', PNone), (''state'', PStr ''Texas''), (''linkedin'', PNone)]"

text \<open>
  A person with a primary email only, and an environment in which a record of hers is
  stored whose last edit was at the start of 2025, \<open>age\<close> microseconds before now.
\<close>

definition ann :: pydict where
  "ann = [(''name'', PStr ''Ann Lee''), (''employer'', PNone), (''primary_email'', PStr ''ann@example.org''),
          (''state'', PNone), (''linkedin'', PNone)]"

definition stored_page :: pydict where
  "stored_page =
     [(''id'', PStr ''rec-1''),
      (''properties'', PDict
         [(''Person Name'', PDict [(''title'', PList [PDict [(''plain_text'', PStr ''Ann Lee'')]])]),
          (''Original Record ID'', PDict [(''rich_text'', PList [PDict [(''plain_text'', PStr ''p1'')]])]),
          (''Enrichment Status'', PDict [(''select'', PDict [(''name'', PStr ''Completed'')])]),
          (''Data Confidence'', PDict [(''select'', PDict [(''name'', PStr ''High'')])]),
          (''Completeness Score'', PDict [(''number'', PInt 66)]),
          (''Last Updated'', PDict [(''last_edited_time'', PStr ''2025-01-01T00:00:00.000Z'')])])]"

definition new_year_2025 :: int where
  "new_year_2025 = 1735689600000000"

definition stored_env :: "int \<Rightarrow> EnrichmentRecord env" where
  "stored_env age =
     quiet_env
       \<lparr> get_person := (\<lambda>person_id. Some ann),
         query_enrichment := (\<lambda>person_id. Returns [stored_page]),
         now := new_year_2025 + age,
         fromisoformat := (\<lambda>s. if s = ''2025-01-01T00:00:00.000+00:00''
                                 then Some (Aware new_year_2025) else None) \<rparr>"

text \<open>A person without primary email, employer and profile URL.\<close>

definition nobody :: pydict where
  "nobody = [(''name'', PStr ''Ann Lee''), (''employer'', PNone), (''primary_email'', PNone),
             (''state'', PNone), (''linkedin'', PNone)]"

definition nobody_env :: "EnrichmentRecord env" where
  "nobody_env = quiet_env \<lparr> get_person := (\<lambda>person_id. Some nobody) \<rparr>"

text \<open>
  Ann is found, every actor run starts as \<open>run-1\<close>, and every status request fails.
\<close>

definition status_fails_env :: "EnrichmentRecord env" where
  "status_fails_env =
     quiet_env
       \<lparr> get_person := (\<lambda>person_id. Some ann),
         run_actor := (\<lambda>actor_id input_data. Returns [(''id'', PStr ''run-1'')]),
         status_check := (\<lambda>run_id k. (200, RequestException)) \<rparr>"

text \<open>
  Ann is found, the run succeeds at once and its dataset holds one result, and the
  request that stores the record fails.
\<close>

definition found_item :: pydict where
  "found_item = [(''email'', PStr ''ann@example.org''), (''phone_number'', PStr ''555-0100''),
                 (''title'', PStr ''Engineer''), (''organization_name'', PStr ''Acme'')]"

definition store_fails_env :: "EnrichmentRecord env" where
  "store_fails_env =
     quiet_env
       \<lparr> get_person := (\<lambda>person_id. Some ann),
         run_actor := (\<lambda>actor_id input_data. Returns [(''id'', PStr ''run-1'')]),
         status_check := (\<lambda>run_id k. (200, Returns [(''status'', PStr ''SUCCEEDED''),
                                                     (''defaultDatasetId'', PStr ''ds-1'')])),
         fetch_items := (\<lambda>dataset_id. (300, Returns [found_item])),
         create_page := (\<lambda>record. RequestException) \<rparr>"

definition found_record :: EnrichmentRecord where
  "found_record =
     \<lparr> person_name = PStr ''Ann Lee'', original_record_id = PStr ''p1'',
       apollo_data = Some (process_apollo_results store_fails_env [found_item]),
       linkedin_data = None,
       enrichment_status = PStr ''Completed'', data_confidence = ''Medium'',
       completeness_score = 66, errors = None \<rparr>"

definition ann_input :: pydict where
  "ann_input =
     [(''searchCriteria'', PDict [(''person_name'', PStr ''Ann Lee''),
                                 (''email'', PStr ''ann@example.org'')]),
      (''maxResults'', PInt 5), (''includeEmails'', PBool True),
      (''includePhoneNumbers'', PBool True)]"

text \<open>A person with a profile URL only.\<close>

definition bea :: pydict where
  "bea = [(''name'', PStr ''Bea Roy''), (''employer'', PNone), (''primary_email'', PNone),
          (''state'', PNone), (''linkedin'', PStr ''https://www.linkedin.com/in/bea-roy'')]"

section \<open>Properties of the completeness score\<close>

lemma count_fields_eq:
  "count_fields d flds (t, f) =
     (t + length flds, f + length (filter (\<lambda>k. truthy (dict_get d k)) flds))"
  by (induction flds arbitrary: t f) auto

lemma percent_int_div:
  "0 < t \<Longrightarrow> percent_int f t = (100 * int f) div int t"
proof -
  assume "0 < t"
  have "(rat_of_nat f / rat_of_nat t) * 100 = rat_of_int (100 * int f) / rat_of_int (int t)"
    by simp
  then have "percent_int f t = \<lfloor>rat_of_int (100 * int f) / rat_of_int (int t)\<rfloor>"
    by (simp only: percent_int_def)
  also have "\<dots> = (100 * int f) div int t"
    by (rule floor_divide_of_int_eq)
  finally show ?thesis .
qed

lemma count_provider_eq:
  "count_provider data flds (t, f) =
     (if truthy_data data
      then (t + length flds,
            f + length (filter (\<lambda>k. truthy (dict_get (the data) k)) flds))
      else (t, f))"
  by (cases data) (simp_all add: count_provider_def count_fields_eq)

lemma counters_eq_checklist:
  "count_provider (linkedin_data record) linkedin_fields
     (count_provider (apollo_data record) apollo_fields (0, 0)) =
   (total_checklist_count record, filled_count record)"
proof -
  have a: "truthy_data (apollo_data record) \<Longrightarrow>
      entry_filled record \<circ> Pair Apollo = (\<lambda>k. truthy (dict_get (the (apollo_data record)) k))"
    by (cases "apollo_data record") (auto simp: entry_filled_def provider_data_def)
  have l: "truthy_data (linkedin_data record) \<Longrightarrow>
      entry_filled record \<circ> Pair LinkedIn = (\<lambda>k. truthy (dict_get (the (linkedin_data record)) k))"
    by (cases "linkedin_data record") (auto simp: entry_filled_def provider_data_def)
  show ?thesis
    by (simp add: count_provider_eq total_checklist_count_def filled_count_def checklist_def
          provider_data_def provider_checklist_def filter_map a l)
qed

lemma filled_le_total: "filled_count record \<le> total_checklist_count record"
  by (simp add: filled_count_def total_checklist_count_def)

lemma calculate_completeness_eq:
  "calculate_completeness record =
     (if total_checklist_count record = 0 then 0
      else (100 * int (filled_count record)) div int (total_checklist_count record))"
  by (simp add: calculate_completeness_def Let_def counters_eq_checklist percent_int_div)

text \<open>
  C7. The completeness score is the floor of 100 times the number of filled checklist
  entries over the number of checklist entries, the checklist being the union of the
  fixed checklists of the providers counted (those with non-empty data); it is 0 when no
  provider is counted, and it always lies between 0 and 100.
\<close>

theorem completeness_is_floor_of_ratio:
  "calculate_completeness record =
     (if total_checklist_count record = 0 then 0
      else \<lfloor>100 * rat_of_nat (filled_count record) / rat_of_nat (total_checklist_count record)\<rfloor>)
   \<and> (\<not> truthy_data (apollo_data record) \<and> \<not> truthy_data (linkedin_data record)
        \<longrightarrow> calculate_completeness record = 0)
   \<and> 0 \<le> calculate_completeness record \<and> calculate_completeness record \<le> 100"
proof -
  let ?t = "total_checklist_count record" and ?f = "filled_count record"
  have floor_eq: "\<lfloor>100 * rat_of_nat ?f / rat_of_nat ?t\<rfloor> = (100 * int ?f) div int ?t"
  proof -
    have "100 * rat_of_nat ?f / rat_of_nat ?t = rat_of_int (100 * int ?f) / rat_of_int (int ?t)"
      by simp
    then show ?thesis
      by (simp only: floor_divide_of_int_eq)
  qed
  have first: "calculate_completeness record =
     (if ?t = 0 then 0 else \<lfloor>100 * rat_of_nat ?f / rat_of_nat ?t\<rfloor>)"
    by (simp only: calculate_completeness_eq floor_eq)
  have none: "\<not> truthy_data (apollo_data record) \<and> \<not> truthy_data (linkedin_data record)
        \<longrightarrow> calculate_completeness record = 0"
    by (simp add: calculate_completeness_eq total_checklist_count_def checklist_def
          provider_data_def)
  have lower: "0 \<le> calculate_completeness record"
    by (simp add: calculate_completeness_eq pos_imp_zdiv_nonneg_iff)
  have upper: "calculate_completeness record \<le> 100"
  proof (cases "?t = 0")
    case True
    then show ?thesis by (simp add: calculate_completeness_eq)
  next
    case False
    have "100 * int ?f \<le> 100 * int ?t"
      using filled_le_total [of "record"] by simp
    then have "(100 * int ?f) div int ?t \<le> (100 * int ?t) div int ?t"
      by (rule zdiv_mono1) (use False in simp)
    also have "\<dots> = 100"
      using False by simp
    finally show ?thesis
      using False by (simp add: calculate_completeness_eq)
  qed
  from first none lower upper show ?thesis by blast
qed


lemma four_of_six_score: "calculate_completeness four_of_six = 66"
  by (simp add: four_of_six_def calculate_completeness_def count_provider_def apollo_fields_def
        dict_get_def percent_int_div new_record_def)

theorem completeness_is_floor_of_ratio_witness:
  "\<not> truthy_data (apollo_data (new_record (PStr ''Ann Lee'') (PStr ''p1''))) \<and>
   \<not> truthy_data (linkedin_data (new_record (PStr ''Ann Lee'') (PStr ''p1''))) \<and>
   calculate_completeness (new_record (PStr ''Ann Lee'') (PStr ''p1'')) = 0 \<and>
   calculate_completeness four_of_six = 66"
  using completeness_is_floor_of_ratio [of "new_record (PStr ''Ann Lee'') (PStr ''p1'')"]
    four_of_six_score
  by (simp add: new_record_def)

section \<open>Properties of the confidence level\<close>

lemma bucket_mono: "a \<le> b \<Longrightarrow> mid \<le> hi \<Longrightarrow> confidence_rank (bucket hi mid a) \<le> confidence_rank (bucket hi mid b)"
  by (simp add: bucket_def confidence_rank_def)

lemma add_points_eq: "add_points c p s = s + (if c then p else 0)"
  by (simp add: add_points_def)

lemma apollo_block_points:
  "(case apollo_data record of None \<Rightarrow> s
    | Some a \<Rightarrow> if a \<noteq> [] then
         add_points (truthy (dict_get a ''company'')) 10
           (add_points (truthy (dict_get a ''phone'')) 20
             (add_points (truthy (dict_get a ''email'')) 30 s))
       else s) =
   s + sum_list (map (\<lambda>s. if has_signal record s then signal_points s else 0)
                  [ApolloEmail, ApolloPhone, ApolloCompany])"
proof (cases "apollo_data record")
  case None
  then show ?thesis
    by (simp add: has_signal_def entry_filled_def provider_data_def)
next
  case (Some a)
  then show ?thesis
    by (cases "a = []")
       (simp_all add: add_points_eq has_signal_def entry_filled_def provider_data_def dict_get_def
          split del: if_split cong: if_cong)
qed

lemma linkedin_block_points:
  "(case linkedin_data record of None \<Rightarrow> s
    | Some l \<Rightarrow> if l \<noteq> [] then
         add_points (truthy (dict_get l ''education'')) 10
           (add_points (truthy (dict_get l ''experience'')) 15
             (add_points (truthy (dict_get l ''headline'')) 15 s))
       else s) =
   s + sum_list (map (\<lambda>s. if has_signal record s then signal_points s else 0)
                  [LinkedInHeadline, LinkedInExperience, LinkedInEducation])"
proof (cases "linkedin_data record")
  case None
  then show ?thesis
    by (simp add: has_signal_def entry_filled_def provider_data_def)
next
  case (Some l)
  then show ?thesis
    by (cases "l = []")
       (simp_all add: add_points_eq has_signal_def entry_filled_def provider_data_def dict_get_def
          split del: if_split cong: if_cong)
qed

lemma assess_data_confidence_bucket:
  "assess_data_confidence record = bucket 70 40 (confidence_points record)"
proof -
  have "confidence_points record =
      sum_list (map (\<lambda>s. if has_signal record s then signal_points s else 0)
                  [ApolloEmail, ApolloPhone, ApolloCompany]) +
      sum_list (map (\<lambda>s. if has_signal record s then signal_points s else 0)
                  [LinkedInHeadline, LinkedInExperience, LinkedInEducation])"
    by (simp add: confidence_points_def all_signals_def split del: if_split)
  then show ?thesis
    by (simp only: assess_data_confidence_def Let_def apollo_block_points linkedin_block_points
          bucket_def add_0_left)
qed

lemma points_mono:
  "list_all (\<lambda>s. \<not> P s \<or> Q s) xs \<Longrightarrow> \<forall>s. 0 \<le> f s \<Longrightarrow>
   sum_list (map (\<lambda>s. if P s then f s else 0) xs) \<le> sum_list (map (\<lambda>s. if Q s then (f s :: int) else 0) xs)"
  by (induction xs) (auto simp: add_mono)

lemma signal_points_nonneg: "0 \<le> signal_points s"
  by (cases s) simp_all

lemma assess_data_confidence_mono: "signals_included r1 r2 \<Longrightarrow> confidence_rank (assess_data_confidence r1) \<le> confidence_rank (assess_data_confidence r2)"
  unfolding assess_data_confidence_bucket
  apply (rule bucket_mono)
  unfolding confidence_points_def signals_included_def
   apply (rule points_mono)
    apply assumption
   apply (simp add: signal_points_nonneg)
  apply simp
  done


lemma enhanced_apollo_block_points:
  assumes "when_data (e_apollo_data record) enhanced_apollo_points s = Inr s'"
  shows "s' = s + enhanced_points_of record [EmailVerified, PhoneVerified, IntentData, NewsMentions]"
proof (cases "e_apollo_data record")
  case None
  with assms show ?thesis
    by (simp add: when_data_def enhanced_points_of_def apollo_has_def)
next
  case (Some a)
  show ?thesis
  proof (cases "a = []")
    case True
    with Some assms show ?thesis
      by (simp add: when_data_def enhanced_points_of_def apollo_has_def)
  next
    case False
    with Some assms obtain news where
      news: "py_gt (dict_get_default a ''news_mentions'' (PInt 0)) 0 = Inr news" and
      s': "s' = add_points news 5 (add_points (truthy (dict_get a ''intent_data'')) 10
             (add_points (truthy (dict_get a ''phone_verified'')) 20
               (add_points (truthy (dict_get a ''email_verified'')) 25 s)))"
      by (auto simp: when_data_def enhanced_apollo_points_def Let_def split: sum.splits)
    from Some False news s' show ?thesis
      by (simp add: add_points_eq enhanced_points_of_def apollo_has_def
            split del: if_split cong: if_cong)
  qed
qed

lemma enhanced_linkedin_block_points:
  assumes "when_data (e_linkedin_data record) enhanced_linkedin_points s = Inr s'"
  shows "s' = s + enhanced_points_of record [ExperienceDepth, ConnectionCount]"
proof (cases "e_linkedin_data record")
  case None
  with assms show ?thesis
    by (simp add: when_data_def enhanced_points_of_def linkedin_has_def)
next
  case (Some l)
  show ?thesis
  proof (cases "l = []")
    case True
    with Some assms show ?thesis
      by (simp add: when_data_def enhanced_points_of_def linkedin_has_def)
  next
    case False
    with Some assms obtain experience connections where
      e: "py_ge (dict_get_default l ''experience_count'' (PInt 0)) 2 = Inr experience" and
      c: "py_ge (dict_get_default l ''connections'' (PInt 0)) 100 = Inr connections" and
      s': "s' = add_points connections 10 (add_points experience 15 s)"
      by (auto simp: when_data_def enhanced_linkedin_points_def split: sum.splits)
    from Some False e c s' show ?thesis
      by (simp add: add_points_eq enhanced_points_of_def linkedin_has_def
            split del: if_split cong: if_cong)
  qed
qed

lemma assess_enhanced_confidence_bucket:
  assumes "assess_enhanced_confidence record = Inr c"
  shows "c = bucket 80 50 (enhanced_points_of record all_enhanced_signals)"
proof -
  from assms obtain s1 s2 where
    s1: "when_data (e_apollo_data record) enhanced_apollo_points 0 = Inr s1" and
    s2: "when_data (e_linkedin_data record) enhanced_linkedin_points s1 = Inr s2" and
    c: "c = bucket 80 50 (add_points (network_depth (e_linkedin_connections record)) 15 s2)"
    by (auto simp: assess_enhanced_confidence_def Let_def bucket_def split: sum.splits)
  have "enhanced_points_of record all_enhanced_signals =
      enhanced_points_of record [EmailVerified, PhoneVerified, IntentData, NewsMentions] +
      enhanced_points_of record [ExperienceDepth, ConnectionCount] +
      (if network_depth (e_linkedin_connections record) then 15 else 0)"
    by (simp add: enhanced_points_of_def all_enhanced_signals_def split del: if_split cong: if_cong)
  with enhanced_apollo_block_points [OF s1] enhanced_linkedin_block_points [OF s2] c
  show ?thesis
    by (simp add: add_points_eq)
qed

lemma enhanced_signal_points_nonneg: "0 \<le> enhanced_signal_points s"
  by (cases s) simp_all

lemma assess_enhanced_confidence_mono:
  assumes "enhanced_signals_included r1 r2"
    and "assess_enhanced_confidence r1 = Inr c1"
    and "assess_enhanced_confidence r2 = Inr c2"
  shows "confidence_rank c1 \<le> confidence_rank c2"
proof -
  have "enhanced_points_of r1 all_enhanced_signals \<le> enhanced_points_of r2 all_enhanced_signals"
    unfolding enhanced_points_of_def
    using assms(1) enhanced_signal_points_nonneg
    by (intro points_mono) (simp_all add: enhanced_signals_included_def)
  then show ?thesis
    unfolding assess_enhanced_confidence_bucket [OF assms(2)]
      assess_enhanced_confidence_bucket [OF assms(3)]
    by (rule bucket_mono) simp
qed


text \<open>
  C8. The confidence level is monotonic in the verification signals: when every signal of
  one input is also a signal of a second input (in particular when the second differs
  only by one additional signal), the bucket of the second is not lower in the order
  Low < Medium < High. This holds for the assessment of the improved service and, whenever
  it returns a bucket for both inputs, for the assessment of the enhanced service.
\<close>

theorem confidence_monotone_in_signals:
  "(signals_included r1 r2 \<longrightarrow>
      confidence_rank (assess_data_confidence r1) \<le> confidence_rank (assess_data_confidence r2))
   \<and> (enhanced_signals_included e1 e2 \<and>
        assess_enhanced_confidence e1 = Inr c1 \<and> assess_enhanced_confidence e2 = Inr c2 \<longrightarrow>
      confidence_rank c1 \<le> confidence_rank c2)"
  using assess_data_confidence_mono [of r1 r2] assess_enhanced_confidence_mono [of e1 e2 c1 c2]
  by blast

lemma email_only_included: "signals_included email_only four_of_six"
  by (simp add: signals_included_def all_signals_def has_signal_def entry_filled_def provider_data_def
      email_only_def four_of_six_def new_record_def dict_get_def)

lemma verified_email_included: "enhanced_signals_included verified_email verified_email_and_phone"
  by (simp add: enhanced_signals_included_def all_enhanced_signals_def apollo_has_def linkedin_has_def
      verified_email_def verified_email_and_phone_def new_enhanced_record_def dict_get_def dict_get_default_def network_depth_def)

lemma verified_email_low: "assess_enhanced_confidence verified_email = Inr ''Low''"
  by (simp add: assess_enhanced_confidence_def when_data_def enhanced_apollo_points_def enhanced_linkedin_points_def
     verified_email_def new_enhanced_record_def dict_get_def dict_get_default_def network_depth_def add_points_def)

lemma verified_email_and_phone_medium: "assess_enhanced_confidence verified_email_and_phone = Inr ''Medium''"
  by (simp add: assess_enhanced_confidence_def when_data_def enhanced_apollo_points_def enhanced_linkedin_points_def
     verified_email_and_phone_def new_enhanced_record_def dict_get_def dict_get_default_def network_depth_def add_points_def)

theorem confidence_monotone_in_signals_witness:
  "signals_included email_only four_of_six \<and>
   confidence_rank (assess_data_confidence email_only) \<le> confidence_rank (assess_data_confidence four_of_six) \<and>
   enhanced_signals_included verified_email verified_email_and_phone \<and>
   assess_enhanced_confidence verified_email = Inr ''Low'' \<and>
   assess_enhanced_confidence verified_email_and_phone = Inr ''Medium'' \<and>
   confidence_rank ''Low'' \<le> confidence_rank ''Medium''"
  using confidence_monotone_in_signals
    [of email_only four_of_six verified_email verified_email_and_phone "''Low''" "''Medium''"]
    email_only_included verified_email_included verified_email_low
    verified_email_and_phone_medium
  by simp


section \<open>Properties of the polling loop\<close>

lemma fetch_results_time:
  assumes "\<forall>ds. fst (fetch_items env ds) \<le> r2"
  shows "fst (snd (fetch_results env run_data)) \<le> r2"
proof (cases "dict_item run_data ''defaultDatasetId''")
  case (Inl e)
  then show ?thesis by (simp add: fetch_results_def)
next
  case (Inr ds)
  obtain d r where dr: "fetch_items env ds = (d, r)" by (cases "fetch_items env ds")
  with assms have "d \<le> r2" by (metis fst_conv)
  with Inr dr show ?thesis
    by (cases r) (simp_all add: fetch_results_def)
qed

lemma fetch_results_no_status_check:
  "status_checks (snd (snd (fetch_results env run_data))) = 0"
  by (auto simp: fetch_results_def status_checks_def is_status_check_def split: sum.splits prod.splits reply.splits)

lemma poll_loop_elapsed:
  assumes s: "\<forall>k. fst (status_check env run_id k) \<le> r1"
    and f: "\<forall>ds. fst (fetch_items env ds) \<le> r2"
  shows "fst (snd (poll_loop env run_id w e k)) \<le> max e (1000 * w + poll_interval + (r1 + r2))"
  using s f
proof (induction env run_id w e k rule: poll_loop.induct)
  case (1 env run_id w e k)
  show ?case
  proof (cases "e < 1000 * w")
    case False
    then show ?thesis by (simp add: poll_loop.simps [of env run_id w e k])
  next
    case True
    obtain d r where dr: "status_check env run_id k = (d, r)" by (cases "status_check env run_id k")
    with "1.prems"(1) have d: "d \<le> r1" by (metis fst_conv)
    show ?thesis
    proof (cases r)
      case RequestException
      with True dr d show ?thesis by (simp add: poll_loop.simps [of env run_id w e k])
    next
      case (Raises x)
      with True dr d show ?thesis by (simp add: poll_loop.simps [of env run_id w e k])
    next
      case (Returns run_data)
      consider (ok) "dict_get run_data ''status'' = PStr ''SUCCEEDED''"
        | (bad) "dict_get run_data ''status'' \<noteq> PStr ''SUCCEEDED''" "dict_get run_data ''status'' \<in> set failure_statuses"
        | (wait) "dict_get run_data ''status'' \<noteq> PStr ''SUCCEEDED''" "dict_get run_data ''status'' \<notin> set failure_statuses"
        by blast
      then show ?thesis
      proof cases
        case ok
        with True dr d Returns fetch_results_time [OF "1.prems"(2), of run_data] show ?thesis
          by (auto simp: poll_loop.simps [of env run_id w e k] split: prod.splits)
      next
        case bad
        with True dr d Returns show ?thesis
          by (simp add: poll_loop.simps [of env run_id w e k])
      next
        case wait
        from "1.IH" [OF True dr [symmetric] Returns wait "1.prems"]
        have "fst (snd (poll_loop env run_id w (e + d + poll_interval) (Suc k)))
            \<le> max (e + d + poll_interval) (1000 * w + poll_interval + (r1 + r2))" .
        with True dr d Returns wait show ?thesis
          by (auto simp: poll_loop.simps [of env run_id w e k] split: prod.splits)
      qed
    qed
  qed
qed


lemma checks_first:
  assumes "e < 1000 * (w::nat)"
  shows "Suc 0 \<le> (1000 * w - e + 14999) div 15000"
proof -
  have "15000 \<le> 1000 * w - e + 14999" using assms by linarith
  then have "15000 div 15000 \<le> (1000 * w - e + 14999) div (15000::nat)"
    by (rule div_le_mono)
  then show ?thesis by simp
qed

lemma div_plus_15000: "(x + 15000) div (15000::nat) = Suc (x div 15000)"
  by simp

lemma checks_step:
  assumes "e < 1000 * w" and "e + (15000::nat) \<le> e'"
  shows "Suc ((1000 * w - e' + 14999) div 15000) \<le> (1000 * w - e + 14999) div 15000"
proof (cases "e' < 1000 * w")
  case True
  then have "(1000 * w - e' + 14999) + 15000 \<le> 1000 * w - e + 14999"
    using assms by linarith
  then have "((1000 * w - e' + 14999) + 15000) div 15000 \<le> (1000 * w - e + 14999) div 15000"
    by (rule div_le_mono)
  moreover have "((1000 * w - e' + 14999) + 15000) div 15000 = Suc ((1000 * w - e' + 14999) div 15000)"
    by (rule div_plus_15000)
  ultimately show ?thesis by (simp only:)
next
  case False
  then have "(1000 * w - e' + 14999) div 15000 = 0" by simp
  with checks_first [OF assms(1)] show ?thesis by simp
qed

lemma poll_loop_status_checks:
  "status_checks (snd (snd (poll_loop env run_id w e k))) \<le> (1000 * w - e + 14999) div 15000"
proof (induction env run_id w e k rule: poll_loop.induct)
  case (1 env run_id w e k)
  show ?case
  proof (cases "e < 1000 * w")
    case False
    then show ?thesis by (simp add: poll_loop.simps [of env run_id w e k] status_checks_def)
  next
    case True
    note first = checks_first [OF True]
    obtain d r where dr: "status_check env run_id k = (d, r)" by (cases "status_check env run_id k")
    show ?thesis
    proof (cases r)
      case RequestException
      with True dr first show ?thesis
        by (simp add: poll_loop.simps [of env run_id w e k] status_checks_def is_status_check_def)
    next
      case (Raises x)
      with True dr first show ?thesis
        by (simp add: poll_loop.simps [of env run_id w e k] status_checks_def is_status_check_def)
    next
      case (Returns run_data)
      consider (ok) "dict_get run_data ''status'' = PStr ''SUCCEEDED''"
        | (bad) "dict_get run_data ''status'' \<noteq> PStr ''SUCCEEDED''" "dict_get run_data ''status'' \<in> set failure_statuses"
        | (wait) "dict_get run_data ''status'' \<noteq> PStr ''SUCCEEDED''" "dict_get run_data ''status'' \<notin> set failure_statuses"
        by blast
      then show ?thesis
      proof cases
        case ok
        have "status_checks (StatusCheck run_id # snd (snd (fetch_results env run_data))) = Suc 0"
          using fetch_results_no_status_check [of env run_data]
          by (simp add: status_checks_def is_status_check_def)
        with True dr Returns ok first show ?thesis
          by (auto simp: poll_loop.simps [of env run_id w e k] split: prod.splits)
      next
        case bad
        with True dr Returns first show ?thesis
          by (simp add: poll_loop.simps [of env run_id w e k] status_checks_def is_status_check_def)
      next
        case wait
        let ?e' = "e + d + poll_interval"
        from "1.IH" [OF True dr [symmetric] Returns wait]
        have ih: "status_checks (snd (snd (poll_loop env run_id w ?e' (Suc k))))
            \<le> (1000 * w - ?e' + 14999) div 15000" .
        have "Suc ((1000 * w - ?e' + 14999) div 15000) \<le> (1000 * w - e + 14999) div 15000"
          by (rule checks_step [OF True]) (simp add: poll_interval_def)
        with ih have "Suc (status_checks (snd (snd (poll_loop env run_id w ?e' (Suc k)))))
            \<le> (1000 * w - e + 14999) div 15000" by linarith
        moreover have "status_checks (snd (snd (poll_loop env run_id w e k))) =
            Suc (status_checks (snd (snd (poll_loop env run_id w ?e' (Suc k)))))"
          using True dr Returns wait
          by (simp add: poll_loop.simps [of env run_id w e k] status_checks_def is_status_check_def
                split: prod.splits)
        ultimately show ?thesis by simp
      qed
    qed
  qed
qed

lemma quiet_poll:
  "get_actor_results quiet_env (PStr ''run-1'') 180 =
     (Inr None, 182400, [StatusCheck (PStr ''run-1''), StatusCheck (PStr ''run-1''),
        StatusCheck (PStr ''run-1''), StatusCheck (PStr ''run-1''),
        StatusCheck (PStr ''run-1''), StatusCheck (PStr ''run-1''),
        StatusCheck (PStr ''run-1''), StatusCheck (PStr ''run-1''),
        StatusCheck (PStr ''run-1''), StatusCheck (PStr ''run-1''),
        StatusCheck (PStr ''run-1''), StatusCheck (PStr ''run-1'')])"
  by (simp add: get_actor_results_def poll_loop.simps quiet_env_def poll_interval_def
        failure_statuses_def dict_get_def)


text \<open>
  C6, as the code has it. Provided every request returns, a poll with max wait W (in
  seconds) and a poll interval of 15 s returns (the loop is a total function whose
  measure is the time left); it makes at most ceiling(W / 15) status requests, an
  iteration starting only while the elapsed time is strictly below W; and when every
  status request takes at most \<open>r1\<close> and every dataset fetch at most \<open>r2\<close>
  milliseconds, the time elapsed at the return is at most W plus one poll interval plus
  one status round trip plus one fetch round trip.
\<close>

theorem poll_is_bounded:
  "(case get_actor_results env run_id max_wait_time of
      (r, t, cs) \<Rightarrow>
        status_checks cs \<le> (1000 * max_wait_time + 14999) div 15000 \<and>
        ((\<forall>k. fst (status_check env run_id k) \<le> r1) \<and> (\<forall>d. fst (fetch_items env d) \<le> r2) \<longrightarrow>
           t \<le> 1000 * max_wait_time + poll_interval + (r1 + r2)))
   \<and> (1000 * max_wait_time \<le> elapsed \<longrightarrow>
        poll_loop env run_id max_wait_time elapsed k = (Inr None, elapsed, []))"
proof -
  obtain r t cs where p: "poll_loop env run_id max_wait_time 0 0 = (r, t, cs)"
    by (cases "poll_loop env run_id max_wait_time 0 0")
  have checks: "status_checks cs \<le> (1000 * max_wait_time + 14999) div 15000"
    using poll_loop_status_checks [of env run_id max_wait_time 0 0] p by simp
  have time: "t \<le> 1000 * max_wait_time + poll_interval + (r1 + r2)"
    if "\<forall>k. fst (status_check env run_id k) \<le> r1" and "\<forall>d. fst (fetch_items env d) \<le> r2"
    using poll_loop_elapsed [OF that, of max_wait_time 0 0] p by simp
  have stop: "poll_loop env run_id max_wait_time elapsed k = (Inr None, elapsed, [])"
    if "1000 * max_wait_time \<le> elapsed"
    using that by (simp add: poll_loop.simps [of env run_id max_wait_time elapsed k])
  from checks time stop p show ?thesis
    by (simp add: get_actor_results_def)
qed

theorem poll_is_bounded_witness:
  "(\<forall>k. fst (status_check quiet_env (PStr ''run-1'') k) \<le> 200) \<and>
   (\<forall>d. fst (fetch_items quiet_env d) \<le> 300) \<and>
   fst (snd (get_actor_results quiet_env (PStr ''run-1'') 180)) = 182400 \<and>
   (182400::nat) \<le> 1000 * 180 + poll_interval + (200 + 300) \<and>
   status_checks (snd (snd (get_actor_results quiet_env (PStr ''run-1'') 180))) = 12 \<and>
   (1000 * 180 \<le> (182400::nat)) \<and>
   poll_loop quiet_env (PStr ''run-1'') 180 182400 12 = (Inr None, 182400, [])"
  using poll_is_bounded [where env = quiet_env and run_id = "PStr ''run-1''" and max_wait_time = 180
      and ?r1.0 = 200 and ?r2.0 = 300 and elapsed = 182400 and k = 12] quiet_poll
  by (simp add: quiet_env_def poll_interval_def status_checks_def is_status_check_def)

text \<open>
  Every request takes 20.999 s, the run is still running at the first five status
  requests and has succeeded at the sixth, which starts 179.995 s into a poll of 180 s:
  the poll returns after 221.993 s, later than the max wait plus one poll interval plus
  one round trip of 20.999 s.
\<close>

theorem poll_exceeds_one_round_trip_counterexample:
  "fst (status_check slow_env (PStr ''run-1'') 5) = 20999 \<and>
   fst (fetch_items slow_env (PStr ''ds-1'')) = 20999 \<and>
   get_actor_results slow_env (PStr ''run-1'') 180 =
     (Inr (Some []), 221993,
      [StatusCheck (PStr ''run-1''), StatusCheck (PStr ''run-1''), StatusCheck (PStr ''run-1''),
       StatusCheck (PStr ''run-1''), StatusCheck (PStr ''run-1''), StatusCheck (PStr ''run-1''),
       DatasetFetch (PStr ''ds-1'')]) \<and>
   (221993::nat) > 1000 * 180 + poll_interval + 20999"
  by (simp add: get_actor_results_def poll_loop.simps slow_env_def quiet_env_def poll_interval_def
        failure_statuses_def dict_get_def fetch_results_def dict_item_def)

section \<open>The search criteria of the enhanced service\<close>

lemma map_of_dict_set:
  "map_of (dict_set d k v) k' = (if k' = k then Some v else map_of d k')"
  by (induction d) auto

lemma set_list_if_other:
  "k' \<noteq> j \<Longrightarrow> map_of (set_list_if d k k' criteria) j = map_of criteria j"
  by (simp add: set_list_if_def map_of_dict_set)

lemma set_value_if_other:
  "k' \<noteq> j \<Longrightarrow> map_of (set_value_if d k k' criteria) j = map_of criteria j"
  by (simp add: set_value_if_def map_of_dict_set)

lemma name_criteria_locations:
  "name_criteria person_data = Inr criteria \<Longrightarrow> map_of criteria ''person_locations'' = None"
  by (auto simp: name_criteria_def Let_def map_of_dict_set split: if_splits pyval.splits)

lemma name_criteria_text:
  "name_is_text person_data \<Longrightarrow> \<exists>criteria. name_criteria person_data = Inr criteria"
  by (auto simp: name_criteria_def name_is_text_def Let_def split: pyval.splits)

lemma build_raises:
  assumes "truthy (dict_get person_data ''state'')" and "\<not> truthy (dict_get person_data ''city'')"
  shows "\<exists>e. build_comprehensive_apollo_search person_data = Inl e"
    and "name_is_text person_data \<Longrightarrow>
      build_comprehensive_apollo_search person_data = Inl (KeyError (quoted ''person_locations''))"
proof -
  have step: "build_comprehensive_apollo_search person_data = Inl (KeyError (quoted ''person_locations''))"
    if "name_criteria person_data = Inr criteria" for criteria
    using that assms name_criteria_locations [OF that]
    by (simp add: build_comprehensive_apollo_search_def Let_def append_state_def dict_item_def
          set_list_if_other set_value_if_other set_list_if_def [of person_data "''city''"])
  show "\<exists>e. build_comprehensive_apollo_search person_data = Inl e"
  proof (cases "name_criteria person_data")
    case (Inl e)
    then show ?thesis by (simp add: build_comprehensive_apollo_search_def)
  next
    case (Inr criteria)
    then show ?thesis using step by blast
  qed
  show "build_comprehensive_apollo_search person_data = Inl (KeyError (quoted ''person_locations''))"
    if "name_is_text person_data"
    using name_criteria_text [OF that] step by blast
qed

lemma texan_facts:
  "truthy (dict_get texan ''state'')" "\<not> truthy (dict_get texan ''city'')" "name_is_text texan"
  "truthy (dict_get texan ''employer'')"
  by (simp_all add: texan_def dict_get_def name_is_text_def)


text \<open>
  C10. In the enhanced service, for every person whose data has a truthy \<open>state\<close> and
  no (truthy) \<open>city\<close>, building the search criteria raises: the state block appends to
  the list \<open>person_locations\<close>, which only the city block creates. With a name that
  is text the exception is \<open>KeyError('person_locations')\<close>; it is raised before any request
  is made, and when the person has a primary email or an employer, phase 1 turns it into
  an error entry and leaves the record without contact-provider data.
\<close>

theorem state_without_city_raises_key_error:
  "truthy (dict_get person_data ''state'') \<and> \<not> truthy (dict_get person_data ''city'') \<longrightarrow>
     (\<exists>e. build_comprehensive_apollo_search person_data = Inl e) \<and>
     (name_is_text person_data \<longrightarrow>
        build_comprehensive_apollo_search person_data = Inl (KeyError (quoted ''person_locations'')) \<and>
        run_enhanced_apollo_enrichment env person_data =
          (Inl (KeyError (quoted ''person_locations'')), []) \<and>
        (truthy (dict_get person_data ''primary_email'') \<or> truthy (dict_get person_data ''employer'') \<longrightarrow>
           enhanced_apollo_phase env person_data rcd =
             (e_add_error rcd (''Apollo enrichment failed: '' @ quoted ''person_locations''), []) \<and>
           e_apollo_data (fst (enhanced_apollo_phase env person_data rcd)) = e_apollo_data rcd))"
proof (intro impI conjI; (elim conjE)?)
  assume s: "truthy (dict_get person_data ''state'')" and c: "\<not> truthy (dict_get person_data ''city'')"
  show "\<exists>e. build_comprehensive_apollo_search person_data = Inl e"
    by (rule build_raises(1) [OF s c])
  assume n: "name_is_text person_data"
  note b = build_raises(2) [OF s c n]
  show "build_comprehensive_apollo_search person_data = Inl (KeyError (quoted ''person_locations''))"
    by (rule b)
  show r: "run_enhanced_apollo_enrichment env person_data =
      (Inl (KeyError (quoted ''person_locations'')), [])"
    by (simp add: run_enhanced_apollo_enrichment_def b)
  assume q: "truthy (dict_get person_data ''primary_email'') \<or> truthy (dict_get person_data ''employer'')"
  show p: "enhanced_apollo_phase env person_data rcd =
      (e_add_error rcd (''Apollo enrichment failed: '' @ quoted ''person_locations''), [])"
    using q by (simp add: enhanced_apollo_phase_def r)
  show "e_apollo_data (fst (enhanced_apollo_phase env person_data rcd)) = e_apollo_data rcd"
    by (simp add: p e_add_error_def)
qed

theorem state_without_city_raises_key_error_witness:
  "truthy (dict_get texan ''state'') \<and> \<not> truthy (dict_get texan ''city'') \<and>
   name_is_text texan \<and> truthy (dict_get texan ''employer'') \<and>
   build_comprehensive_apollo_search texan = Inl (KeyError (quoted ''person_locations'')) \<and>
   enhanced_apollo_phase quiet_env texan
       ((new_enhanced_record (PStr ''Ann Lee'') (PStr ''p1'')) \<lparr> e_external_data_sources := Some [] \<rparr>) =
     ((new_enhanced_record (PStr ''Ann Lee'') (PStr ''p1''))
        \<lparr> e_external_data_sources := Some [],
          e_errors := Some [''Apollo enrichment failed: '' @ quoted ''person_locations''] \<rparr>, [])"
  using state_without_city_raises_key_error
    [where person_data = texan and env = quiet_env
       and ?rcd = "(new_enhanced_record (PStr ''Ann Lee'') (PStr ''p1''))
                        \<lparr> e_external_data_sources := Some [] \<rparr>"]
    texan_facts
  by (simp add: e_add_error_def new_enhanced_record_def)

section \<open>Properties of the staleness gate\<close>

lemma div_gt_30:
  assumes "0 < (d::int)"
  shows "(30 < x div d) = (31 * d \<le> x)"
proof
  assume "30 < x div d"
  then have "31 \<le> x div d" by simp
  then have "31 * d \<le> (x div d) * d" using assms by (simp add: mult_right_mono)
  also have "(x div d) * d \<le> x"
    using assms pos_mod_sign [of d x] div_mult_mod_eq [of x d] by linarith
  finally show "31 * d \<le> x" .
next
  assume "31 * d \<le> x"
  then have "(31 * d) div d \<le> x div d" using assms by (rule zdiv_mono1)
  then show "30 < x div d" using assms by simp
qed

lemma older_than_30_days_aware:
  assumes "fromisoformat env (replace_Z s) = Some (Aware t)"
  shows "older_than_30_days env (PStr s) = (now env - t \<ge> 31 * microseconds_per_day)"
proof -
  have "0 < microseconds_per_day" by (simp add: microseconds_per_day_def)
  from div_gt_30 [OF this] assms show ?thesis
    by (simp add: older_than_30_days_def days_since_update_def)
qed

lemma replace_Z_ex: "replace_Z ''2025-01-01T00:00:00.000Z'' = ''2025-01-01T00:00:00.000+00:00''"
  by (simp add: replace_Z_def)

lemma stored_env_parse:
  "fromisoformat (stored_env age) (replace_Z ''2025-01-01T00:00:00.000Z'') = Some (Aware new_year_2025)"
  by (simp add: replace_Z_ex stored_env_def)

lemma should_update_stored:
  "should_update_enrichment (stored_env age) stored_page = Inr (age \<ge> 31 * microseconds_per_day)"
proof -
  have "should_update_enrichment (stored_env age) stored_page =
      Inr (older_than_30_days (stored_env age) (PStr ''2025-01-01T00:00:00.000Z''))"
    by (simp add: should_update_enrichment_def stored_page_def dict_get_default_def)
  also have "\<dots> = Inr (now (stored_env age) - new_year_2025 \<ge> 31 * microseconds_per_day)"
    by (simp only: older_than_30_days_aware [OF stored_env_parse])
  also have "now (stored_env age) - new_year_2025 = age"
    by (simp add: stored_env_def)
  finally show ?thesis .
qed

lemma stored_gate:
  "staleness_gate (stored_env age) ''p1'' =
     Inr (if age \<ge> 31 * microseconds_per_day then Rerun else Skip stored_page)"
proof -
  have f: "find_existing_enrichment (stored_env age) ''p1'' = Inr (Some stored_page)"
    by (simp add: find_existing_enrichment_def stored_env_def)
  have i: "dict_item stored_page ''id'' = Inr (PStr ''rec-1'')" and ne: "stored_page \<noteq> []"
    by (simp_all add: stored_page_def dict_item_def)
  show ?thesis
    by (simp add: staleness_gate_def f i ne should_update_stored)
qed

text \<open>
  C4, evaluated. A record last edited 30 days and 12 hours ago is older than 30 days;
  its timestamp parses, the whole days since the edit are 30, which is not more than 30,
  and the gate skips it. At 10 days the gate skips and at 45 days it decides re-run.
\<close>

theorem record_older_than_30_days_is_skipped:
  "now (stored_env (30 * microseconds_per_day + 43200000000)) - new_year_2025 > 30 * microseconds_per_day \<and>
   fromisoformat (stored_env (30 * microseconds_per_day + 43200000000))
     (replace_Z ''2025-01-01T00:00:00.000Z'') = Some (Aware new_year_2025) \<and>
   should_update_enrichment (stored_env (30 * microseconds_per_day + 43200000000)) stored_page = Inr False \<and>
   staleness_gate (stored_env (30 * microseconds_per_day + 43200000000)) ''p1'' = Inr (Skip stored_page) \<and>
   staleness_gate (stored_env (10 * microseconds_per_day)) ''p1'' = Inr (Skip stored_page) \<and>
   staleness_gate (stored_env (45 * microseconds_per_day)) ''p1'' = Inr Rerun"
  by (simp add: stored_gate should_update_stored stored_env_parse)
     (simp add: stored_env_def microseconds_per_day_def)

section \<open>The record returned for a fresh stored record\<close>

lemma extract_fields:
  assumes "extract_enrichment_record page = Inr r"
  shows "stored_field (dict_get_default page ''properties'' (PDict [])) ''Person Name'' ''title''
           (PStr []) first_plain_text = Inr (person_name r)"
    and "stored_field (dict_get_default page ''properties'' (PDict [])) ''Original Record ID'' ''rich_text''
           (PStr []) first_plain_text = Inr (original_record_id r)"
    and "stored_field (dict_get_default page ''properties'' (PDict [])) ''Enrichment Status'' ''select''
           (PStr ''Unknown'') (\<lambda>v. py_item v ''name'') = Inr (enrichment_status r)"
    and "apollo_data r = None" and "linkedin_data r = None" and "completeness_score r = 0"
    and "data_confidence r = ''Medium''" and "errors r = None"
  using assms
  by (auto simp: extract_enrichment_record_def Let_def new_record_def split: sum.splits)

text \<open>
  C5, as the code has it. When the gate decides to skip, no provider is called and
  the record returned is rebuilt from the stored page by \<open>_extract_enrichment_record\<close>:
  it carries the stored person name, original record id and enrichment status (\<open>""\<close>,
  \<open>""\<close> and \<open>"Unknown"\<close> when the page lacks them), and the defaults of the dataclass
  everywhere else: no provider data, completeness score 0, confidence \<open>"Medium"\<close>, no
  error list.
\<close>

theorem skip_returns_three_stored_fields:
  "get_person env person_id = Some person_data \<and> staleness_gate env person_id = Inr (Skip page) \<longrightarrow>
     enrich_person_complete env person_id = (extract_enrichment_record page, []) \<and>
     (extract_enrichment_record page = Inr r \<longrightarrow>
        stored_field (dict_get_default page ''properties'' (PDict [])) ''Person Name'' ''title''
           (PStr []) first_plain_text = Inr (person_name r) \<and>
        stored_field (dict_get_default page ''properties'' (PDict [])) ''Original Record ID'' ''rich_text''
           (PStr []) first_plain_text = Inr (original_record_id r) \<and>
        stored_field (dict_get_default page ''properties'' (PDict [])) ''Enrichment Status'' ''select''
           (PStr ''Unknown'') (\<lambda>v. py_item v ''name'') = Inr (enrichment_status r) \<and>
        apollo_data r = None \<and> linkedin_data r = None \<and> completeness_score r = 0 \<and>
        data_confidence r = ''Medium'' \<and> errors r = None)"
  using extract_fields [of page r]
  by (simp add: enrich_person_complete_def)

lemma stored_page_extract:
  "extract_enrichment_record stored_page =
     Inr ((new_record (PStr ''Ann Lee'') (PStr ''p1'')) \<lparr> enrichment_status := PStr ''Completed'' \<rparr>)"
  by (simp add: extract_enrichment_record_def stored_page_def dict_get_default_def stored_field_def
        property_value_def first_plain_text_def dict_item_def)

lemma stored_person: "get_person (stored_env age) ''p1'' = Some ann"
  by (simp add: stored_env_def)

theorem skip_returns_three_stored_fields_witness:
  "get_person (stored_env (10 * microseconds_per_day)) ''p1'' = Some ann \<and>
   staleness_gate (stored_env (10 * microseconds_per_day)) ''p1'' = Inr (Skip stored_page) \<and>
   enrich_person_complete (stored_env (10 * microseconds_per_day)) ''p1'' =
     (Inr ((new_record (PStr ''Ann Lee'') (PStr ''p1'')) \<lparr> enrichment_status := PStr ''Completed'' \<rparr>), [])"
  using skip_returns_three_stored_fields
    [where env = "stored_env (10 * microseconds_per_day)" and person_id = "''p1''"
       and person_data = ann and page = stored_page
       and r = "(new_record (PStr ''Ann Lee'') (PStr ''p1'')) \<lparr> enrichment_status := PStr ''Completed'' \<rparr>"]
    stored_person [of "10 * microseconds_per_day"] stored_gate [of "10 * microseconds_per_day"]
    stored_page_extract
  by (simp add: microseconds_per_day_def)

text \<open>
  A fresh stored record with completeness score 66 and confidence \<open>High\<close>: the record
  returned for it has score 0 and confidence \<open>Medium\<close>, so it is not the stored record
  unchanged.
\<close>

theorem skip_returns_record_unchanged_counterexample:
  "staleness_gate (stored_env (10 * microseconds_per_day)) ''p1'' = Inr (Skip stored_page) \<and>
   stored_completeness_score stored_page = PInt 66 \<and>
   stored_data_confidence stored_page = PStr ''High'' \<and>
   enrich_person_complete (stored_env (10 * microseconds_per_day)) ''p1'' =
     (Inr \<lparr> person_name = PStr ''Ann Lee'', original_record_id = PStr ''p1'',
            apollo_data = None, linkedin_data = None,
            enrichment_status = PStr ''Completed'', data_confidence = ''Medium'',
            completeness_score = 0, errors = None \<rparr>, [])"
  using stored_person [of "10 * microseconds_per_day"] stored_gate [of "10 * microseconds_per_day"]
    stored_page_extract
  by (simp add: microseconds_per_day_def enrich_person_complete_def new_record_def
       stored_completeness_score_def stored_data_confidence_def stored_property_def
       stored_page_def dict_get_def)


lemma quiet_gate: "staleness_gate (quiet_env \<lparr> get_person := g, run_actor := a, status_check := s \<rparr>) p = Inr Rerun"
  by (simp add: staleness_gate_def find_existing_enrichment_def quiet_env_def)

section \<open>The status of an enrichment attempt\<close>

text \<open>
  C2, evaluated. A person without primary email, employer and profile URL: no provider
  job is dispatched and the completeness score is 0, and the status of the
  returned record is \<open>Completed\<close>.
\<close>

theorem nothing_to_enrich_is_completed:
  "enrich_person_complete nobody_env ''p1'' =
     (Inr \<lparr> person_name = PStr ''Ann Lee'', original_record_id = PStr ''p1'',
            apollo_data = None, linkedin_data = None,
            enrichment_status = PStr ''Completed'', data_confidence = ''Low'',
            completeness_score = 0, errors = None \<rparr>, [])"
  by (simp add: enrich_person_complete_def nobody_env_def nobody_def quiet_env_def staleness_gate_def
        find_existing_enrichment_def run_enrichment_def apollo_step_def linkedin_step_def
        dict_get_def dict_get_default_def new_record_def score_step_def status_step_def has_errors_def
        calculate_completeness_def count_provider_def assess_data_confidence_def
        store_enrichment_record_def dict_item_def)

lemma ann_search:
  "prepare_apollo_search ann =
     Inr (Some [(''searchCriteria'', PDict [(''person_name'', PStr ''Ann Lee''),
                                           (''email'', PStr ''ann@example.org'')]),
                (''maxResults'', PInt 5), (''includeEmails'', PBool True),
                (''includePhoneNumbers'', PBool True)])"
  by (simp add: prepare_apollo_search_def ann_def dict_get_default_def dict_get_def
        split_first_space_def set_list_if_def set_value_if_def)

lemma status_fails_apollo:
  "run_apollo_enrichment_safe status_fails_env ann =
     (Inr None,
      [ActorRun apollo_actor_id
         [(''searchCriteria'', PDict [(''person_name'', PStr ''Ann Lee''),
                                     (''email'', PStr ''ann@example.org'')]),
          (''maxResults'', PInt 5), (''includeEmails'', PBool True),
          (''includePhoneNumbers'', PBool True)],
       StatusCheck (PStr ''run-1'')])"
  by (simp add: run_apollo_enrichment_safe_def ann_search run_and_collect_def and_then_def
        run_apify_actor_def status_fails_env_def quiet_env_def dict_item_def polled_def
        get_actor_results_def poll_loop.simps)

text \<open>
  A status request that fails at the network level, for a job that was dispatched: the
  pipeline yields no data and the status is not asked again, and the error list of the
  returned record is still empty, so no entry was appended for the failure.
\<close>

theorem failed_poll_appends_error_counterexample:
  "snd (status_check status_fails_env (PStr ''run-1'') 0) = RequestException \<and>
   enrich_person_complete status_fails_env ''p1'' =
     (Inr \<lparr> person_name = PStr ''Ann Lee'', original_record_id = PStr ''p1'',
            apollo_data = None, linkedin_data = None,
            enrichment_status = PStr ''Completed'', data_confidence = ''Low'',
            completeness_score = 0, errors = None \<rparr>,
      [ActorRun apollo_actor_id
         [(''searchCriteria'', PDict [(''person_name'', PStr ''Ann Lee''),
                                     (''email'', PStr ''ann@example.org'')]),
          (''maxResults'', PInt 5), (''includeEmails'', PBool True),
          (''includePhoneNumbers'', PBool True)],
       StatusCheck (PStr ''run-1'')])"
proof -
  have g: "staleness_gate status_fails_env ''p1'' = Inr Rerun"
    by (simp add: status_fails_env_def quiet_gate)
  have a: "apollo_step status_fails_env ann r = (r \<lparr> apollo_data := None \<rparr>,
      [ActorRun apollo_actor_id
         [(''searchCriteria'', PDict [(''person_name'', PStr ''Ann Lee''),
                                     (''email'', PStr ''ann@example.org'')]),
          (''maxResults'', PInt 5), (''includeEmails'', PBool True),
          (''includePhoneNumbers'', PBool True)],
       StatusCheck (PStr ''run-1'')])" for r
    by (simp add: apollo_step_def status_fails_apollo) (simp add: ann_def dict_get_def)
  have l: "linkedin_step status_fails_env ann r = (r, [])" for r
    by (simp add: linkedin_step_def ann_def dict_get_def)
  have p: "get_person status_fails_env ''p1'' = Some ann"
    by (simp add: status_fails_env_def)
  have s: "store_enrichment_record status_fails_env r = Inr (Some (PStr ''page-1''))" for r
    by (simp add: store_enrichment_record_def status_fails_env_def quiet_env_def dict_item_def)
  show ?thesis
    by (simp add: enrich_person_complete_def p g run_enrichment_def a l s)
       (simp add: status_fails_env_def quiet_env_def new_record_def score_step_def status_step_def
          has_errors_def calculate_completeness_def count_provider_def assess_data_confidence_def
          ann_def dict_get_default_def)
qed

lemma enrich_rerun:
  assumes "get_person env person_id = Some person_data"
    and "staleness_gate env person_id = Inr Rerun"
    and "enrich_person_complete env person_id = (Inr r, cs)"
  shows "run_enrichment env person_id person_data = (r, cs)"
  using assms
  by (auto simp: enrich_person_complete_def split: prod.splits sum.splits)

lemma store_fails_apollo:
  "run_apollo_enrichment_safe store_fails_env ann =
     (Inr (Some (process_apollo_results store_fails_env [found_item])),
      [ActorRun apollo_actor_id ann_input, StatusCheck (PStr ''run-1''), DatasetFetch (PStr ''ds-1'')])"
  by (simp add: run_apollo_enrichment_safe_def ann_search run_and_collect_def and_then_def
        run_apify_actor_def store_fails_env_def quiet_env_def dict_item_def polled_def
        get_actor_results_def poll_loop.simps fetch_results_def dict_get_def ann_input_def)

lemma store_fails_result:
  "enrich_person_complete store_fails_env ''p1'' =
     (Inr found_record,
      [ActorRun apollo_actor_id ann_input, StatusCheck (PStr ''run-1''), DatasetFetch (PStr ''ds-1'')])"
proof -
  have g: "staleness_gate store_fails_env ''p1'' = Inr Rerun"
    by (simp add: staleness_gate_def find_existing_enrichment_def store_fails_env_def quiet_env_def)
  have a: "apollo_step store_fails_env ann r =
      (r \<lparr> apollo_data := Some (process_apollo_results store_fails_env [found_item]) \<rparr>,
       [ActorRun apollo_actor_id ann_input, StatusCheck (PStr ''run-1''), DatasetFetch (PStr ''ds-1'')])" for r
    by (simp add: apollo_step_def store_fails_apollo) (simp add: ann_def dict_get_def)
  have l: "linkedin_step store_fails_env ann r = (r, [])" for r
    by (simp add: linkedin_step_def ann_def dict_get_def)
  have p: "get_person store_fails_env ''p1'' = Some ann"
    by (simp add: store_fails_env_def)
  have s: "store_enrichment_record store_fails_env r = Inr None" for r
    by (simp add: store_enrichment_record_def store_fails_env_def)
  have d: "process_apollo_results store_fails_env [found_item] =
     [(''raw_data'', PStr ''{}''), (''email'', PStr ''ann@example.org''), (''personal_email'', PNone),
      (''phone'', PStr ''555-0100''), (''mobile'', PNone), (''title'', PStr ''Engineer''),
      (''company'', PStr ''Acme''), (''industry'', PNone), (''city'', PNone), (''state'', PNone),
      (''country'', PNone), (''linkedin_url'', PNone), (''company_size'', PNone),
      (''department'', PNone), (''seniority'', PNone)]"
    by (simp add: process_apollo_results_def found_item_def dict_get_def store_fails_env_def quiet_env_def)
  have n: "dict_get_default ann ''name'' (PStr ''Unknown'') = PStr ''Ann Lee''"
    by (simp add: ann_def dict_get_default_def)
  show ?thesis
    by (simp add: enrich_person_complete_def p g run_enrichment_def a l s n found_record_def)
       (simp add: d new_record_def score_step_def status_step_def
          has_errors_def calculate_completeness_def count_provider_def assess_data_confidence_def
          apollo_fields_def dict_get_def percent_int_div add_points_def)
qed

text \<open>
  C1, evaluated. The contact provider produces data, no error is recorded, and the
  request that stores the record fails: persistence did not succeed, and the status of
  the returned record is \<open>Completed\<close>.
\<close>

theorem completed_after_failed_store:
  "create_page store_fails_env found_record = RequestException \<and>
   \<not> persistence_succeeded store_fails_env found_record \<and>
   produced_data found_record \<and>
   enrich_person_complete store_fails_env ''p1'' =
     (Inr found_record,
      [ActorRun apollo_actor_id ann_input, StatusCheck (PStr ''run-1''), DatasetFetch (PStr ''ds-1'')]) \<and>
   enrichment_status found_record = PStr ''Completed''"
  using store_fails_result
  by (simp add: found_record_def produced_data_def persistence_succeeded_def
        store_enrichment_record_def process_apollo_results_def)
     (simp add: store_fails_env_def)

lemma poll_failure_ends_loop:
  assumes "elapsed < 1000 * w"
    and "snd (status_check env run_id k) = RequestException \<or>
         (\<exists>run_data. snd (status_check env run_id k) = Returns run_data \<and>
                      dict_get run_data ''status'' \<in> set failure_statuses)"
  shows "poll_loop env run_id w elapsed k =
           (Inr None, elapsed + fst (status_check env run_id k), [StatusCheck run_id])"
proof -
  obtain d r where dr: "status_check env run_id k = (d, r)" by (cases "status_check env run_id k")
  have "PStr ''SUCCEEDED'' \<notin> set failure_statuses" by (simp add: failure_statuses_def)
  with assms dr show ?thesis
    by (auto simp: poll_loop.simps [of env run_id w elapsed k])
qed

lemma collect_nothing:
  assumes "run_actor env actor_id actor_input = Returns run"
    and "dict_item run ''id'' = Inr run_id"
    and "fst (get_actor_results env run_id 180) = Inr None"
  shows "run_and_collect env actor_id actor_input process =
           (Inr None, ActorRun actor_id actor_input # snd (snd (get_actor_results env run_id 180)))"
proof -
  have ne: "run \<noteq> []" using assms(2) by (auto simp: dict_item_def)
  obtain t cs where g: "get_actor_results env run_id 180 = (Inr None, t, cs)"
    using assms(3) by (cases "get_actor_results env run_id 180") auto
  show ?thesis
    by (simp add: run_and_collect_def run_apify_actor_def and_then_def assms(1,2) ne g polled_def)
qed

text \<open>
  C3, as the code has it. A status request that fails at the network or HTTP level and a
  remote job in a failure, abort or timeout state end the loop at once, with no data and
  no further request; so does the elapse of the max wait. The pipeline of a dispatched
  job whose poll gave no data returns no data, and the step that ran it leaves the error
  list of the record as it was: the failure is printed, not recorded.
\<close>

theorem failed_poll_yields_no_data_and_no_error_entry:
  "(elapsed < 1000 * w \<and>
    (snd (status_check env run_id k) = RequestException \<or>
     (\<exists>run_data. snd (status_check env run_id k) = Returns run_data \<and>
                  dict_get run_data ''status'' \<in> set failure_statuses)) \<longrightarrow>
      poll_loop env run_id w elapsed k =
        (Inr None, elapsed + fst (status_check env run_id k), [StatusCheck run_id]))
   \<and> (1000 * w \<le> elapsed \<longrightarrow> poll_loop env run_id w elapsed k = (Inr None, elapsed, []))
   \<and> (run_actor env actor_id actor_input = Returns run \<and> dict_item run ''id'' = Inr run_id \<and>
        fst (get_actor_results env run_id 180) = Inr None \<longrightarrow>
          run_and_collect env actor_id actor_input process =
            (Inr None, ActorRun actor_id actor_input # snd (snd (get_actor_results env run_id 180))))
   \<and> ((truthy (dict_get person_data ''primary_email'') \<or> truthy (dict_get person_data ''employer'')) \<and>
        fst (run_apollo_enrichment_safe env person_data) = Inr None \<longrightarrow>
          fst (apollo_step env person_data rcd) = rcd \<lparr> apollo_data := None \<rparr> \<and>
          errors (fst (apollo_step env person_data rcd)) = errors rcd)
   \<and> (truthy (dict_get person_data ''linkedin'') \<and>
        fst (run_linkedin_enrichment_safe env person_data) = Inr None \<longrightarrow>
          fst (linkedin_step env person_data rcd) = rcd \<lparr> linkedin_data := None \<rparr> \<and>
          errors (fst (linkedin_step env person_data rcd)) = errors rcd)"
proof (intro conjI impI; (elim conjE)?)
  show "poll_loop env run_id w elapsed k =
      (Inr None, elapsed + fst (status_check env run_id k), [StatusCheck run_id])"
    if "elapsed < 1000 * w"
      "snd (status_check env run_id k) = RequestException \<or>
       (\<exists>run_data. snd (status_check env run_id k) = Returns run_data \<and>
                    dict_get run_data ''status'' \<in> set failure_statuses)"
    using that by (rule poll_failure_ends_loop)
  show "poll_loop env run_id w elapsed k = (Inr None, elapsed, [])" if "1000 * w \<le> elapsed"
    using that by (simp add: poll_loop.simps [of env run_id w elapsed k])
  show "run_and_collect env actor_id actor_input process =
      (Inr None, ActorRun actor_id actor_input # snd (snd (get_actor_results env run_id 180)))"
    if "run_actor env actor_id actor_input = Returns run" "dict_item run ''id'' = Inr run_id"
      "fst (get_actor_results env run_id 180) = Inr None"
    using that by (rule collect_nothing)
next
  assume q: "truthy (dict_get person_data ''primary_email'') \<or> truthy (dict_get person_data ''employer'')"
    and n: "fst (run_apollo_enrichment_safe env person_data) = Inr None"
  obtain cs where "run_apollo_enrichment_safe env person_data = (Inr None, cs)"
    using n by (cases "run_apollo_enrichment_safe env person_data") auto
  with q show a: "fst (apollo_step env person_data rcd) = rcd \<lparr> apollo_data := None \<rparr>"
    by (simp add: apollo_step_def)
  show "errors (fst (apollo_step env person_data rcd)) = errors rcd"
    by (simp add: a)
next
  assume q: "truthy (dict_get person_data ''linkedin'')"
    and n: "fst (run_linkedin_enrichment_safe env person_data) = Inr None"
  obtain cs where "run_linkedin_enrichment_safe env person_data = (Inr None, cs)"
    using n by (cases "run_linkedin_enrichment_safe env person_data") auto
  with q show a: "fst (linkedin_step env person_data rcd) = rcd \<lparr> linkedin_data := None \<rparr>"
    by (simp add: linkedin_step_def)
  show "errors (fst (linkedin_step env person_data rcd)) = errors rcd"
    by (simp add: a)
qed

lemma status_fails_poll:
  "get_actor_results status_fails_env (PStr ''run-1'') 180 =
     (Inr None, 200, [StatusCheck (PStr ''run-1'')])"
  by (simp add: get_actor_results_def poll_loop.simps status_fails_env_def)

lemma status_fails_linkedin:
  "fst (run_linkedin_enrichment_safe status_fails_env bea) = Inr None"
proof -
  have r: "run_actor status_fails_env actor_id actor_input = Returns [(''id'', PStr ''run-1'')]"
    for actor_id actor_input
    by (simp add: status_fails_env_def)
  have i: "dict_item [(''id'', PStr ''run-1'')] ''id'' = Inr (PStr ''run-1'')"
    by (simp add: dict_item_def)
  have g: "fst (get_actor_results status_fails_env (PStr ''run-1'') 180) = Inr None"
    by (simp add: status_fails_poll)
  show ?thesis
    by (simp add: run_linkedin_enrichment_safe_def bea_def dict_get_def collect_nothing [OF r i g])
qed

theorem failed_poll_yields_no_data_and_no_error_entry_witness:
  "(0::nat) < 1000 * 180 \<and>
   snd (status_check status_fails_env (PStr ''run-1'') 0) = RequestException \<and>
   poll_loop status_fails_env (PStr ''run-1'') 180 0 0 =
     (Inr None, 0 + fst (status_check status_fails_env (PStr ''run-1'') 0), [StatusCheck (PStr ''run-1'')]) \<and>
   (1000 * 180 \<le> (182400::nat)) \<and>
   poll_loop status_fails_env (PStr ''run-1'') 180 182400 0 = (Inr None, 182400, []) \<and>
   run_actor status_fails_env apollo_actor_id ann_input = Returns [(''id'', PStr ''run-1'')] \<and>
   dict_item [(''id'', PStr ''run-1'')] ''id'' = Inr (PStr ''run-1'') \<and>
   fst (get_actor_results status_fails_env (PStr ''run-1'') 180) = Inr None \<and>
   run_and_collect status_fails_env apollo_actor_id ann_input first_result =
     (Inr None, ActorRun apollo_actor_id ann_input #
                snd (snd (get_actor_results status_fails_env (PStr ''run-1'') 180))) \<and>
   truthy (dict_get ann ''primary_email'') \<and>
   fst (run_apollo_enrichment_safe status_fails_env ann) = Inr None \<and>
   errors (fst (apollo_step status_fails_env ann four_of_six)) = errors four_of_six \<and>
   fst (apollo_step status_fails_env ann four_of_six) = four_of_six \<lparr> apollo_data := None \<rparr> \<and>
   truthy (dict_get bea ''linkedin'') \<and>
   fst (run_linkedin_enrichment_safe status_fails_env bea) = Inr None \<and>
   fst (linkedin_step status_fails_env bea four_of_six) = four_of_six \<lparr> linkedin_data := None \<rparr>"
proof -
  note T1 = failed_poll_yields_no_data_and_no_error_entry
    [where env = status_fails_env and run_id = "PStr ''run-1''" and w = 180 and elapsed = 0
       and k = 0 and actor_id = apollo_actor_id and actor_input = ann_input
       and run = "[(''id'', PStr ''run-1'')]" and process = first_result
       and person_data = ann and ?rcd = four_of_six]
  note T2 = failed_poll_yields_no_data_and_no_error_entry
    [where env = status_fails_env and run_id = "PStr ''run-1''" and w = 180 and elapsed = 182400
       and k = 0 and actor_id = apollo_actor_id and actor_input = ann_input
       and run = "[(''id'', PStr ''run-1'')]" and process = first_result
       and person_data = bea and ?rcd = four_of_six]
  have h1: "(0::nat) < 1000 * 180" "1000 * 180 \<le> (182400::nat)" by simp_all
  have h2: "snd (status_check status_fails_env (PStr ''run-1'') 0) = RequestException"
    by (simp add: status_fails_env_def)
  have h3: "run_actor status_fails_env apollo_actor_id ann_input = Returns [(''id'', PStr ''run-1'')]"
    by (simp add: status_fails_env_def)
  have h4: "dict_item [(''id'', PStr ''run-1'')] ''id'' = Inr (PStr ''run-1'')"
    by (simp add: dict_item_def)
  have h5: "fst (get_actor_results status_fails_env (PStr ''run-1'') 180) = Inr None"
    by (simp add: status_fails_poll)
  have h6: "truthy (dict_get ann ''primary_email'')" "truthy (dict_get bea ''linkedin'')"
    by (simp_all add: ann_def bea_def dict_get_def)
  have h7: "fst (run_apollo_enrichment_safe status_fails_env ann) = Inr None"
    by (simp add: status_fails_apollo)
  note h8 = status_fails_linkedin
  from T1 h1(1) h2 have c1: "poll_loop status_fails_env (PStr ''run-1'') 180 0 0 =
     (Inr None, 0 + fst (status_check status_fails_env (PStr ''run-1'') 0), [StatusCheck (PStr ''run-1'')])"
    by blast
  from T2 h1(2) have c2: "poll_loop status_fails_env (PStr ''run-1'') 180 182400 0 = (Inr None, 182400, [])"
    by blast
  from T1 h3 h4 h5 have c3: "run_and_collect status_fails_env apollo_actor_id ann_input first_result =
     (Inr None, ActorRun apollo_actor_id ann_input #
                snd (snd (get_actor_results status_fails_env (PStr ''run-1'') 180)))"
    by blast
  from T1 h6(1) h7 have c4: "fst (apollo_step status_fails_env ann four_of_six) = four_of_six \<lparr> apollo_data := None \<rparr>"
    "errors (fst (apollo_step status_fails_env ann four_of_six)) = errors four_of_six"
    by blast+
  from T2 h6(2) h8 have c5: "fst (linkedin_step status_fails_env bea four_of_six) = four_of_six \<lparr> linkedin_data := None \<rparr>"
    by blast
  from h1 h2 h3 h4 h5 h6 h7 h8 c1 c2 c3 c4 c5 show ?thesis by blast
qed


section \<open>Determinism of the scoring\<close>

lemma scoring_reads_data:
  "apollo_data r1 = apollo_data r2 \<Longrightarrow> linkedin_data r1 = linkedin_data r2 \<Longrightarrow>
     calculate_completeness r1 = calculate_completeness r2 \<and>
     assess_data_confidence r1 = assess_data_confidence r2"
  by (simp add: calculate_completeness_def assess_data_confidence_def)

lemma status_step_scores:
  "apollo_data (status_step r) = apollo_data r" "linkedin_data (status_step r) = linkedin_data r"
  "completeness_score (status_step r) = completeness_score r"
  "data_confidence (status_step r) = data_confidence r"
  by (simp_all add: status_step_def)

lemma score_step_scores:
  "apollo_data (score_step r) = apollo_data r" "linkedin_data (score_step r) = linkedin_data r"
  "completeness_score (score_step r) = calculate_completeness r"
  "data_confidence (score_step r) = assess_data_confidence r"
  using scoring_reads_data [of "r \<lparr> completeness_score := calculate_completeness r \<rparr>" r]
  by (simp_all add: score_step_def Let_def)

lemma run_enrichment_scores:
  assumes "run_enrichment env person_id person_data = (r, cs)"
  shows "completeness_score r = calculate_completeness r \<and>
         data_confidence r = assess_data_confidence r"
proof -
  from assms obtain r0 where r: "r = status_step (score_step r0)"
    by (auto simp: run_enrichment_def Let_def split: prod.splits)
  have "apollo_data r = apollo_data r0" "linkedin_data r = linkedin_data r0"
    by (simp_all add: r status_step_scores score_step_scores)
  from scoring_reads_data [OF this] show ?thesis
    by (simp add: r status_step_scores score_step_scores)
qed

lemma store_fails_rerun:
  "get_person store_fails_env ''p1'' = Some ann" "staleness_gate store_fails_env ''p1'' = Inr Rerun"
  by (simp_all add: staleness_gate_def find_existing_enrichment_def store_fails_env_def quiet_env_def)

text \<open>
  C9. Completeness score and confidence level are pure functions of the per-provider
  data: two records with the same provider data get the same score and the same
  confidence level, whatever their other fields (status, error list, names) hold; and
  the score and the confidence level of the record that an attempt returns after running
  the providers are these functions of its provider data, whatever the clock and the
  polls of the attempt were.
\<close>

theorem scoring_depends_only_on_provider_data:
  "(apollo_data r1 = apollo_data r2 \<and> linkedin_data r1 = linkedin_data r2 \<longrightarrow>
      calculate_completeness r1 = calculate_completeness r2 \<and>
      assess_data_confidence r1 = assess_data_confidence r2)
   \<and> (get_person env person_id = Some person_data \<and> staleness_gate env person_id = Inr Rerun \<and>
        enrich_person_complete env person_id = (Inr r, cs) \<longrightarrow>
          completeness_score r = calculate_completeness r \<and>
          data_confidence r = assess_data_confidence r)"
  using scoring_reads_data [of r1 r2] run_enrichment_scores [of env person_id person_data r cs]
    enrich_rerun [of env person_id person_data r cs]
  by blast

theorem scoring_depends_only_on_provider_data_witness:
  "apollo_data four_of_six = apollo_data (add_error ''late'' four_of_six) \<and>
   linkedin_data four_of_six = linkedin_data (add_error ''late'' four_of_six) \<and>
   four_of_six \<noteq> add_error ''late'' four_of_six \<and>
   calculate_completeness four_of_six = calculate_completeness (add_error ''late'' four_of_six) \<and>
   assess_data_confidence four_of_six = assess_data_confidence (add_error ''late'' four_of_six) \<and>
   get_person store_fails_env ''p1'' = Some ann \<and>
   staleness_gate store_fails_env ''p1'' = Inr Rerun \<and>
   enrich_person_complete store_fails_env ''p1'' =
     (Inr found_record,
      [ActorRun apollo_actor_id ann_input, StatusCheck (PStr ''run-1''), DatasetFetch (PStr ''ds-1'')]) \<and>
   calculate_completeness found_record = 66 \<and>
   assess_data_confidence found_record = ''Medium''"
proof -
  have d: "apollo_data four_of_six = apollo_data (add_error ''late'' four_of_six)"
    "linkedin_data four_of_six = linkedin_data (add_error ''late'' four_of_six)"
    "four_of_six \<noteq> add_error ''late'' four_of_six"
    by (simp_all add: add_error_def four_of_six_def new_record_def)
  note T = scoring_depends_only_on_provider_data
    [where ?r1.0 = four_of_six and ?r2.0 = "add_error ''late'' four_of_six"
       and env = store_fails_env and person_id = "''p1''" and person_data = ann
       and r = found_record
       and cs = "[ActorRun apollo_actor_id ann_input, StatusCheck (PStr ''run-1''),
                  DatasetFetch (PStr ''ds-1'')]"]
  from T d have a: "calculate_completeness four_of_six = calculate_completeness (add_error ''late'' four_of_six)"
    "assess_data_confidence four_of_six = assess_data_confidence (add_error ''late'' four_of_six)"
    by blast+
  from T store_fails_rerun store_fails_result
  have "completeness_score found_record = calculate_completeness found_record"
    "data_confidence found_record = assess_data_confidence found_record"
    by blast+
  then have b: "calculate_completeness found_record = 66" "assess_data_confidence found_record = ''Medium''"
    by (simp_all add: found_record_def)
  from d a b store_fails_rerun store_fails_result show ?thesis by blast
qed

end
